theory Spec2Isabelle
  imports Complex_Main "HOL-Library.Sublist" "HOL-Library.Multiset"
begin

section \<open>Text primitives of the Python source\<close>

text \<open>
  The program of \<^verbatim>\<open>src/main.py\<close> works on Python \<^verbatim>\<open>str\<close> values. They are modelled
  as \<^typ>\<open>string\<close>, each \<^typ>\<open>char\<close> standing for the code point of the same number
  (0 to 255, the Latin-1 range); texts with code points above 255 are outside the model.
  The character classes below are those of CPython's \<^verbatim>\<open>str\<close> methods and of the
  \<^verbatim>\<open>re\<close> module for \<^verbatim>\<open>str\<close> patterns, restricted to that range.
  Floating-point scores are modelled as exact rationals (\<^typ>\<open>rat\<close>): the score
  arithmetic of the source is read as arithmetic on the numbers its literals denote.
\<close>

definition code :: "char \<Rightarrow> nat" where
  "code c = of_char c"

text \<open>\<^verbatim>\<open>\d\<close> of \<^verbatim>\<open>re\<close>: the decimal digits.\<close>

definition is_digit :: "char \<Rightarrow> bool" where
  "is_digit c = (48 \<le> code c \<and> code c \<le> 57)"

text \<open>The class \<^verbatim>\<open>[a-zA-Z]\<close>.\<close>

definition is_ascii_letter :: "char \<Rightarrow> bool" where
  "is_ascii_letter c = ((65 \<le> code c \<and> code c \<le> 90) \<or> (97 \<le> code c \<and> code c \<le> 122))"

text \<open>\<^verbatim>\<open>\s\<close> of \<^verbatim>\<open>re\<close>, which is also the whitespace of \<^verbatim>\<open>str.strip\<close> and \<^verbatim>\<open>str.split\<close>.\<close>

definition is_space :: "char \<Rightarrow> bool" where
  "is_space c = ((9 \<le> code c \<and> code c \<le> 13) \<or> (28 \<le> code c \<and> code c \<le> 32)
     \<or> code c = 133 \<or> code c = 160)"

text \<open>\<^verbatim>\<open>\w\<close> of \<^verbatim>\<open>re\<close>: alphanumeric characters and the underscore.\<close>

definition is_word :: "char \<Rightarrow> bool" where
  "is_word c = (is_digit c \<or> is_ascii_letter c \<or> code c = 95
     \<or> code c = 170 \<or> code c = 178 \<or> code c = 179 \<or> code c = 181
     \<or> code c = 185 \<or> code c = 186 \<or> (188 \<le> code c \<and> code c \<le> 190)
     \<or> (192 \<le> code c \<and> code c \<le> 214) \<or> (216 \<le> code c \<and> code c \<le> 246)
     \<or> 248 \<le> code c)"

text \<open>One character of \<^verbatim>\<open>str.lower\<close>.\<close>

definition lower_char :: "char \<Rightarrow> char" where
  "lower_char c =
     (if (65 \<le> code c \<and> code c \<le> 90) \<or> (192 \<le> code c \<and> code c \<le> 222 \<and> code c \<noteq> 215)
      then char_of (code c + 32) else c)"

definition lower :: "string \<Rightarrow> string" where
  "lower s = map lower_char s"

text \<open>The test \<^verbatim>\<open>sub in s\<close> on strings: \<^verbatim>\<open>sub\<close> occurs in \<^verbatim>\<open>s\<close> as a contiguous piece.\<close>

fun str_in :: "string \<Rightarrow> string \<Rightarrow> bool" where
  "str_in sub [] = (sub = [])"
| "str_in sub (c # cs) = (prefix sub (c # cs) \<or> str_in sub cs)"

text \<open>\<^verbatim>\<open>any(word in s for word in words)\<close>.\<close>

definition any_in :: "string list \<Rightarrow> string \<Rightarrow> bool" where
  "any_in ws s = list_ex (\<lambda>w. str_in w s) ws"

text \<open>
  \<^verbatim>\<open>re.findall\<close> for a pattern \<^verbatim>\<open>\bC{n,}\b\<close> where \<^verbatim>\<open>C\<close> is a class of word characters:
  scanning from the left, a maximal run of \<^verbatim>\<open>C\<close> is a match when it has at least \<^verbatim>\<open>n\<close>
  characters, the character before it is no word character and the character after it
  is no word character. A shorter piece of a run never matches, because both of its
  neighbours inside the run are word characters. The flag says whether the character
  before the current position is a word character.
\<close>

function findall_runs :: "(char \<Rightarrow> bool) \<Rightarrow> nat \<Rightarrow> bool \<Rightarrow> string \<Rightarrow> string list" where
  "findall_runs C n prev [] = []"
| "findall_runs C n prev (c # cs) =
     (if C c \<and> \<not> prev then
        (if n \<le> length (c # takeWhile C cs)
            \<and> (case dropWhile C cs of [] \<Rightarrow> True | d # _ \<Rightarrow> \<not> is_word d)
         then (c # takeWhile C cs) # findall_runs C n True (dropWhile C cs)
         else findall_runs C n True (dropWhile C cs))
      else findall_runs C n (is_word c) cs)"
  by pat_completeness auto
termination
  by (relation "measure (\<lambda>(C, n, prev, s). length s)")
     (auto simp: less_Suc_eq_le length_dropWhile_le)

text \<open>\<^verbatim>\<open>re.findall(r'\b(\d+)\b', s)\<close>.\<close>

definition findall_numbers :: "string \<Rightarrow> string list" where
  "findall_numbers s = findall_runs is_digit 1 False s"

text \<open>\<^verbatim>\<open>re.findall(r'\b[a-zA-Z]{3,}\b', s)\<close>.\<close>

definition findall_words :: "string \<Rightarrow> string list" where
  "findall_words s = findall_runs is_ascii_letter 3 False s"

text \<open>
  \<^verbatim>\<open>re.search(r'(\d+)\s*UNITs?', s)\<close>, giving group 1 of the leftmost match: at each start
  position in turn, the digits from there, then whitespace, then the unit word. Giving
  back digits or whitespace cannot help, since the unit word starts with a letter.
\<close>

fun search_number_unit :: "string \<Rightarrow> string \<Rightarrow> string option" where
  "search_number_unit unit [] = None"
| "search_number_unit unit (c # cs) =
     (if is_digit c \<and> prefix unit (dropWhile is_space (dropWhile is_digit cs))
      then Some (c # takeWhile is_digit cs)
      else search_number_unit unit cs)"

text \<open>
  \<^verbatim>\<open>int(s)\<close> on a string of decimal digits. Python integers are unbounded; the limit
  that recent interpreters put on the length of the digit string (4300 digits unless
  configured otherwise) is not modelled.
\<close>

definition digit_value :: "char \<Rightarrow> int" where
  "digit_value c = int (code c) - 48"

definition int_of_digits :: "string \<Rightarrow> int" where
  "int_of_digits s = foldl (\<lambda>a c. 10 * a + digit_value c) 0 s"

section \<open>The context analyser\<close>

text \<open>
  The context dictionary of \<^verbatim>\<open>analyze_persona_job_context\<close>. The key \<^verbatim>\<open>group_size\<close>
  is present only when the analyser sets it, hence the option.
\<close>

record travel_context =
  persona_type :: string
  group_type :: string
  group_size :: "int option"
  trip_duration :: string
  age_group :: string
  budget_level :: string
  activity_preferences :: "string list"
  special_requirements :: "string list"

definition initial_context :: travel_context where
  "initial_context = \<lparr> persona_type = ''general'', group_type = ''individual'',
     group_size = None, trip_duration = ''unknown'', age_group = ''adult'',
     budget_level = ''mid-range'', activity_preferences = [], special_requirements = [] \<rparr>"

definition combined_text :: "string \<Rightarrow> string \<Rightarrow> string" where
  "combined_text persona_text job_text = lower (persona_text @ '' '' @ job_text)"

definition analyze_persona_type :: "string \<Rightarrow> travel_context \<Rightarrow> travel_context" where
  "analyze_persona_type combined ctx =
     (if any_in [''travel planner'', ''travel agent'', ''tour guide''] combined
      then ctx\<lparr>persona_type := ''travel_professional''\<rparr>
      else if any_in [''blogger'', ''writer'', ''journalist''] combined
      then ctx\<lparr>persona_type := ''content_creator''\<rparr>
      else if any_in [''business'', ''corporate'', ''executive''] combined
      then ctx\<lparr>persona_type := ''business''\<rparr>
      else ctx)"

definition analyze_group :: "string \<Rightarrow> string \<Rightarrow> travel_context \<Rightarrow> travel_context" where
  "analyze_group combined job_text ctx =
     (if str_in ''group'' combined then
        (let ctx1 = ctx\<lparr>group_type := ''group''\<rparr>; numbers = findall_numbers job_text in
         case numbers of [] \<Rightarrow> ctx1
         | n # _ \<Rightarrow> ctx1\<lparr>group_size := Some (int_of_digits n)\<rparr>)
      else ctx)"

definition analyze_age_group :: "string \<Rightarrow> travel_context \<Rightarrow> travel_context" where
  "analyze_age_group combined ctx =
     (if any_in [''college'', ''student'', ''young'', ''youth''] combined
      then ctx\<lparr>age_group := ''young_adult''\<rparr>
      else if any_in [''family'', ''children'', ''kids''] combined
      then ctx\<lparr>age_group := ''family''\<rparr>
      else if any_in [''senior'', ''elderly'', ''retirement''] combined
      then ctx\<lparr>age_group := ''senior''\<rparr>
      else ctx)"

text \<open>
  The loop over \<^verbatim>\<open>duration_patterns\<close>, in the insertion order of the dictionary, leaving
  at the first pattern that matches.
\<close>

definition analyze_trip_duration :: "string \<Rightarrow> travel_context \<Rightarrow> travel_context" where
  "analyze_trip_duration combined ctx =
     (case search_number_unit ''day'' combined of
        Some n \<Rightarrow> ctx\<lparr>trip_duration := n @ ''_days''\<rparr>
      | None \<Rightarrow>
     (case search_number_unit ''week'' combined of
        Some n \<Rightarrow> ctx\<lparr>trip_duration := n @ ''_weeks''\<rparr>
      | None \<Rightarrow>
     (if str_in ''weekend'' combined then ctx\<lparr>trip_duration := ''weekend''\<rparr>
      else if str_in ''long weekend'' combined then ctx\<lparr>trip_duration := ''long_weekend''\<rparr>
      else ctx)))"

definition analyze_budget :: "string \<Rightarrow> travel_context \<Rightarrow> travel_context" where
  "analyze_budget combined ctx =
     (if any_in [''budget'', ''cheap'', ''affordable'', ''low-cost''] combined
      then ctx\<lparr>budget_level := ''budget''\<rparr>
      else if any_in [''luxury'', ''premium'', ''high-end'', ''expensive''] combined
      then ctx\<lparr>budget_level := ''luxury''\<rparr>
      else ctx)"

definition activity_types :: "(string \<times> string list) list" where
  "activity_types =
     [(''adventure'', [''adventure'', ''outdoor'', ''hiking'', ''sports'', ''active'']),
      (''cultural'', [''cultural'', ''museum'', ''historical'', ''art'', ''heritage'']),
      (''relaxation'', [''relax'', ''spa'', ''beach'', ''peaceful'', ''quiet'']),
      (''nightlife'', [''nightlife'', ''party'', ''bars'', ''clubs'', ''entertainment'']),
      (''culinary'', [''food'', ''culinary'', ''dining'', ''restaurant'', ''cooking'']),
      (''nature'', [''nature'', ''natural'', ''park'', ''wildlife'', ''scenery''])]"

definition analyze_activities :: "string \<Rightarrow> travel_context \<Rightarrow> travel_context" where
  "analyze_activities combined ctx =
     foldl (\<lambda>c (activity, keywords).
              if any_in keywords combined
              then c\<lparr>activity_preferences := activity_preferences c @ [activity]\<rparr> else c)
       ctx activity_types"

definition analyze_persona_job_context :: "string \<Rightarrow> string \<Rightarrow> travel_context" where
  "analyze_persona_job_context persona_text job_text =
     (let combined = combined_text persona_text job_text in
      analyze_activities combined
       (analyze_budget combined
        (analyze_trip_duration combined
         (analyze_age_group combined
          (analyze_group combined job_text
           (analyze_persona_type combined initial_context))))))"

section \<open>The relevance scorer\<close>

text \<open>
  The table \<^verbatim>\<open>self.travel_keywords\<close>, in the order of the source. The key
  \<^verbatim>\<open>dining\<close> is written twice there, both times with the weight 10.
\<close>

definition travel_keywords :: "(string \<times> int) list" where
  "travel_keywords =
     [(''trip'', 15), (''travel'', 15), (''planning'', 20), (''itinerary'', 18), (''journey'', 12),
      (''vacation'', 12), (''holiday'', 10), (''tour'', 14), (''visit'', 8), (''explore'', 12),
      (''group'', 20), (''friends'', 18), (''college'', 15), (''student'', 12), (''young'', 10),
      (''together'', 8), (''social'', 10), (''party'', 8), (''team'', 8),
      (''activities'', 18), (''experiences'', 16), (''adventures'', 16), (''attractions'', 14),
      (''entertainment'', 14), (''nightlife'', 14), (''cultural'', 12), (''outdoor'', 10),
      (''sightseeing'', 12), (''excursions'', 10),
      (''accommodation'', 12), (''hotels'', 12), (''restaurants'', 12), (''dining'', 10),
      (''booking'', 8), (''reservations'', 8), (''transportation'', 10),
      (''tips'', 16), (''advice'', 14), (''guide'', 18), (''recommendations'', 14),
      (''suggestions'', 10), (''tricks'', 12), (''information'', 8),
      (''coastal'', 14), (''beach'', 12), (''sea'', 8), (''water'', 8), (''mountain'', 8),
      (''city'', 10), (''urban'', 8), (''rural'', 6), (''countryside'', 6),
      (''culinary'', 16), (''cuisine'', 14), (''food'', 12), (''cooking'', 10), (''wine'', 8),
      (''restaurant'', 10), (''cafe'', 6), (''dining'', 10),
      (''packing'', 14), (''luggage'', 8), (''clothes'', 6), (''weather'', 8),
      (''documents'', 8), (''passport'', 6), (''visa'', 6),
      (''budget'', 16), (''cheap'', 10), (''affordable'', 12), (''expensive'', 6),
      (''cost'', 8), (''price'', 6), (''money'', 6)]"

record content_pattern =
  pattern_keywords :: "string list"
  weight_multiplier :: rat
  content_type :: string

definition content_patterns :: "(string \<times> content_pattern) list" where
  "content_patterns =
     [(''guide_comprehensive'',
        \<lparr>pattern_keywords = [''guide'', ''comprehensive'', ''overview'', ''introduction''],
         weight_multiplier = 15 / 10, content_type = ''overview''\<rparr>),
      (''activities_adventure'',
        \<lparr>pattern_keywords = [''activities'', ''adventures'', ''things'', ''do'', ''outdoor'', ''sports''],
         weight_multiplier = 14 / 10, content_type = ''activities''\<rparr>),
      (''food_culinary'',
        \<lparr>pattern_keywords = [''food'', ''culinary'', ''cuisine'', ''dining'', ''restaurants'', ''cooking''],
         weight_multiplier = 13 / 10, content_type = ''culinary''\<rparr>),
      (''accommodation_hotels'',
        \<lparr>pattern_keywords = [''hotels'', ''accommodation'', ''stay'', ''lodging'', ''booking''],
         weight_multiplier = 12 / 10, content_type = ''accommodation''\<rparr>),
      (''transportation_logistics'',
        \<lparr>pattern_keywords = [''transportation'', ''travel'', ''getting'', ''around'', ''logistics''],
         weight_multiplier = 11 / 10, content_type = ''transportation''\<rparr>),
      (''tips_advice'',
        \<lparr>pattern_keywords = [''tips'', ''advice'', ''tricks'', ''recommendations'', ''suggestions''],
         weight_multiplier = 13 / 10, content_type = ''tips''\<rparr>),
      (''nightlife_entertainment'',
        \<lparr>pattern_keywords = [''nightlife'', ''entertainment'', ''bars'', ''clubs'', ''party''],
         weight_multiplier = 12 / 10, content_type = ''entertainment''\<rparr>),
      (''cultural_historical'',
        \<lparr>pattern_keywords = [''cultural'', ''culture'', ''historical'', ''history'', ''heritage''],
         weight_multiplier = 11 / 10, content_type = ''cultural''\<rparr>)]"

text \<open>The loop \<^verbatim>\<open>for word in words: if word in self.travel_keywords: keyword_score += ...\<close>.\<close>

definition keyword_score :: "string list \<Rightarrow> int" where
  "keyword_score words =
     foldl (\<lambda>acc word. case map_of travel_keywords word of
                          Some weight \<Rightarrow> acc + weight | None \<Rightarrow> acc) 0 words"

text \<open>One pass of the loop over \<^verbatim>\<open>context['activity_preferences']\<close>.\<close>

definition preference_step :: "string \<Rightarrow> rat \<Rightarrow> string \<Rightarrow> rat" where
  "preference_step full_text m preference =
     (if preference = ''adventure'' \<and> any_in [''adventure'', ''outdoor'', ''active''] full_text
      then m + 2 / 10
      else if preference = ''cultural'' \<and> any_in [''cultural'', ''museum'', ''historical''] full_text
      then m + 2 / 10
      else if preference = ''culinary'' \<and> any_in [''food'', ''culinary'', ''restaurant''] full_text
      then m + 2 / 10
      else if preference = ''nightlife'' \<and> any_in [''nightlife'', ''entertainment'', ''bars''] full_text
      then m + 2 / 10
      else m)"

text \<open>
  The statements that update \<^verbatim>\<open>context_multiplier\<close>, one after the other, starting
  from 1.0.
\<close>

definition context_multiplier :: "travel_context \<Rightarrow> string \<Rightarrow> rat" where
  "context_multiplier ctx full_text =
     (let m0 = 1;
          m1 = (if persona_type ctx = ''travel_professional''
                then (if any_in [''guide'', ''comprehensive'', ''planning''] full_text
                      then m0 + 3 / 10 else m0)
                else m0);
          m2 = (if group_type ctx = ''group''
                then (if any_in [''group'', ''friends'', ''together''] full_text
                      then m1 + 4 / 10 else m1)
                else m1);
          m3 = (if age_group ctx = ''young_adult''
                then (if any_in [''nightlife'', ''adventure'', ''budget'', ''student''] full_text
                      then m2 + 3 / 10 else m2)
                else if age_group ctx = ''family''
                then (if any_in [''family'', ''safe'', ''activities'', ''educational''] full_text
                      then m2 + 3 / 10 else m2)
                else m2);
          m4 = (if budget_level ctx = ''budget''
                then (if any_in [''budget'', ''cheap'', ''affordable'', ''tips''] full_text
                      then m3 + 2 / 10 else m3)
                else if budget_level ctx = ''luxury''
                then (if any_in [''luxury'', ''premium'', ''exclusive'', ''high-end''] full_text
                      then m3 + 2 / 10 else m3)
                else m3)
      in foldl (preference_step full_text) m4 (activity_preferences ctx))"

text \<open>The number of keywords of a pattern that occur in the text.\<close>

definition pattern_matches :: "content_pattern \<Rightarrow> string \<Rightarrow> nat" where
  "pattern_matches pattern_info full_text =
     length (filter (\<lambda>keyword. str_in keyword full_text) (pattern_keywords pattern_info))"

text \<open>The loop over \<^verbatim>\<open>self.content_patterns.items()\<close>.\<close>

definition pattern_bonus :: "string \<Rightarrow> rat" where
  "pattern_bonus full_text =
     foldl (\<lambda>acc (pattern_name, pattern_info).
              if 0 < pattern_matches pattern_info full_text
              then acc + of_nat (pattern_matches pattern_info full_text)
                           * weight_multiplier pattern_info * 5
              else acc) 0 content_patterns"

definition full_text_of :: "string \<Rightarrow> string \<Rightarrow> string" where
  "full_text_of title text = lower (title @ '' '' @ text)"

text \<open>
  \<^verbatim>\<open>calculate_dynamic_relevance(text, title, context, document_name, page_num)\<close>. The
  last two arguments are not read by the source.
\<close>

definition calculate_dynamic_relevance ::
  "string \<Rightarrow> string \<Rightarrow> travel_context \<Rightarrow> string \<Rightarrow> int \<Rightarrow> rat" where
  "calculate_dynamic_relevance text title ctx document_name page_num =
     (if text = [] \<and> title = [] then 0
      else
        (let full_text = full_text_of title text;
             words = findall_words full_text
         in if words = [] then 0
            else
              (let base_score = of_int (keyword_score words) / of_nat (length words) * 10;
                   final_score = (base_score + pattern_bonus full_text)
                                   * context_multiplier ctx full_text
               in min final_score 100)))"

section \<open>The content synthesiser\<close>

text \<open>\<^verbatim>\<open>str.strip()\<close>, \<^verbatim>\<open>str.split()\<close>, \<^verbatim>\<open>str.isdigit()\<close> and \<^verbatim>\<open>' '.join\<close>.\<close>

definition strip :: "string \<Rightarrow> string" where
  "strip s = rev (dropWhile is_space (rev (dropWhile is_space s)))"

fun split_aux :: "string \<Rightarrow> string \<Rightarrow> string list" where
  "split_aux cur [] = (if cur = [] then [] else [cur])"
| "split_aux cur (c # cs) =
     (if is_space c then (if cur = [] then split_aux [] cs else cur # split_aux [] cs)
      else split_aux (cur @ [c]) cs)"

definition split :: "string \<Rightarrow> string list" where
  "split s = split_aux [] s"

definition isdigit :: "string \<Rightarrow> bool" where
  "isdigit s = (s \<noteq> [] \<and>
     list_all (\<lambda>c. is_digit c \<or> code c = 178 \<or> code c = 179 \<or> code c = 185) s)"

fun join :: "string list \<Rightarrow> string" where
  "join [] = []"
| "join [x] = x"
| "join (x # y # ys) = x @ '' '' @ join (y # ys)"

text \<open>\<^verbatim>\<open>str(n)\<close> for an integer, and \<^verbatim>\<open>s.replace('_', ' ')\<close>.\<close>

fun str_nat :: "nat \<Rightarrow> string" where
  "str_nat n = (if n < 10 then [char_of (48 + n)]
                else str_nat (n div 10) @ [char_of (48 + n mod 10)])"

definition str_int :: "int \<Rightarrow> string" where
  "str_int i = (if i < 0 then CHR ''-'' # str_nat (nat (- i)) else str_nat (nat i))"

definition replace_underscores :: "string \<Rightarrow> string" where
  "replace_underscores s = map (\<lambda>c. if c = CHR ''_'' then CHR '' '' else c) s"

text \<open>The section type found by the chain of tests on the lower-cased title.\<close>

definition section_type_of :: "string \<Rightarrow> string" where
  "section_type_of title_lower =
     (if any_in [''guide'', ''comprehensive'', ''overview''] title_lower then ''guide''
      else if any_in [''activities'', ''things'', ''adventures''] title_lower then ''activities''
      else if any_in [''food'', ''culinary'', ''dining'', ''restaurant''] title_lower then ''culinary''
      else if any_in [''accommodation'', ''hotels'', ''stay''] title_lower then ''accommodation''
      else if any_in [''tips'', ''advice'', ''packing''] title_lower then ''tips''
      else if any_in [''nightlife'', ''entertainment'', ''bars''] title_lower then ''entertainment''
      else if any_in [''transportation'', ''travel'', ''getting''] title_lower then ''transportation''
      else ''general'')"

text \<open>A conditional \<^verbatim>\<open>content_parts.append(...)\<close>.\<close>

definition part_if :: "bool \<Rightarrow> string \<Rightarrow> string list" where
  "part_if b s = (if b then [s] else [])"

definition guide_parts :: "string \<Rightarrow> travel_context \<Rightarrow> string list" where
  "guide_parts title_lower ctx =
     [''This '' @ title_lower @ '' provides comprehensive information for planning your trip.'']
     @ part_if (group_type ctx = ''group'')
         (''Designed specifically for group travel, with recommendations suitable for ''
          @ (case group_size ctx of Some n \<Rightarrow> str_int n | None \<Rightarrow> ''multiple'')
          @ '' travelers.'')
     @ part_if (age_group ctx = ''young_adult'')
         ''Includes budget-friendly options and activities popular with young travelers.''
     @ part_if (age_group ctx = ''family'')
         ''Features family-friendly activities, educational experiences, and multi-generational bonding opportunities that cater to different age groups.''"

definition activities_parts :: "string \<Rightarrow> travel_context \<Rightarrow> string list" where
  "activities_parts title_lower ctx =
     [''Explore a variety of '' @ title_lower @ '' designed to enhance your travel experience.'']
     @ part_if (''adventure'' \<in> set (activity_preferences ctx))
         ''Features outdoor adventures, active experiences, and thrilling activities perfect for creating lasting memories.''
     @ part_if (''cultural'' \<in> set (activity_preferences ctx) \<or> age_group ctx = ''family'')
         ''Includes cultural experiences, historical sites, museums, and local traditions that provide educational value.''
     @ part_if (group_type ctx = ''group'')
         ''Group-friendly activities that everyone can enjoy together, with options for different skill levels and interests.''
     @ part_if (str_in ''coastal'' title_lower \<or> str_in ''beach'' title_lower)
         ''Beach activities include swimming, sunbathing, water sports, and coastal walks. Popular beaches offer amenities like restaurants, equipment rentals, and lifeguard services.''"

definition culinary_parts :: "string \<Rightarrow> travel_context \<Rightarrow> string list" where
  "culinary_parts title_lower ctx =
     [''Discover the '' @ title_lower @ '' that showcase local flavors and dining traditions.'',
      ''From traditional dishes to modern cuisine, explore cooking classes, food tours, and restaurant recommendations.'']
     @ (if budget_level ctx = ''budget''
        then [''Includes affordable dining options, local food markets, and budget-friendly restaurants that offer authentic experiences.'']
        else if budget_level ctx = ''luxury''
        then [''Features fine dining establishments, exclusive culinary experiences, and renowned restaurants with exceptional service.'']
        else [])
     @ part_if (age_group ctx = ''family'')
         ''Family-friendly restaurants with varied menus, child-appropriate options, and welcoming atmospheres for all ages.''"

definition tips_parts :: "string \<Rightarrow> travel_context \<Rightarrow> string list" where
  "tips_parts title_lower ctx =
     [''Essential '' @ title_lower @ '' to help you prepare for and enjoy your trip.'']
     @ part_if (age_group ctx = ''young_adult'')
         ''Student-friendly tips for budget travel, money-saving strategies, and making the most of your experience.''
     @ part_if (group_type ctx = ''group'')
         ''Group travel considerations including coordination tips, shared expenses, and communication strategies.''
     @ part_if (age_group ctx = ''family'')
         ''Family travel essentials including packing for different ages, safety considerations, and keeping everyone entertained.''
     @ [''Packing recommendations include versatile clothing, essential documents, first aid supplies, and items specific to your planned activities.'']"

definition entertainment_parts :: "string \<Rightarrow> travel_context \<Rightarrow> string list" where
  "entertainment_parts title_lower ctx =
     [''Experience the vibrant '' @ title_lower @ '' scene with options ranging from casual to upscale venues.'']
     @ part_if (age_group ctx = ''young_adult'')
         ''Popular with college students and young travelers, featuring trendy bars, clubs, live music venues, and social hotspots.''
     @ part_if (age_group ctx = ''family'')
         ''Family-appropriate entertainment including cultural performances, festivals, and evening activities suitable for all ages.''
     @ [''Includes live music venues, entertainment districts, cultural shows, and nighttime activities with something for every taste.'']"

definition general_parts :: "string \<Rightarrow> travel_context \<Rightarrow> string list" where
  "general_parts title_lower ctx =
     [''This section covers '' @ title_lower @ '' with practical information and recommendations.'']
     @ part_if (persona_type ctx = ''travel_professional'')
         ''Provides detailed insights for professional travel planning and client recommendations.''
     @ part_if (age_group ctx = ''family'')
         ''Includes considerations for traveling with multiple generations and varying interests.''"

text \<open>The closing sentence, chosen by the trip duration.\<close>

definition closing_parts :: "travel_context \<Rightarrow> string list" where
  "closing_parts ctx =
     (if trip_duration ctx \<noteq> [] \<and> str_in ''days'' (trip_duration ctx)
      then [''Perfect for planning a '' @ replace_underscores (trip_duration ctx)
            @ '' itinerary with optimal time management and efficient use of your vacation time.'']
      else if trip_duration ctx \<noteq> [] \<and> str_in ''weeks'' (trip_duration ctx)
      then [''Ideal for extended '' @ replace_underscores (trip_duration ctx)
            @ '' stays that allow for deeper exploration and immersive experiences.'']
      else [])"

text \<open>
  \<^verbatim>\<open>_generate_dynamic_fallback(section_title, pdf_path, context)\<close>. The types
  \<^verbatim>\<open>accommodation\<close> and \<^verbatim>\<open>transportation\<close> have no branch of their own in the source
  and take the last one, with \<^verbatim>\<open>general\<close>. The path is read into \<^verbatim>\<open>doc_name\<close>, which is
  not used.
\<close>

definition content_parts :: "string \<Rightarrow> travel_context \<Rightarrow> string list" where
  "content_parts section_title ctx =
     (let title_lower = lower section_title;
          section_type = section_type_of title_lower
      in (if section_type = ''guide'' then guide_parts title_lower ctx
          else if section_type = ''activities'' then activities_parts title_lower ctx
          else if section_type = ''culinary'' then culinary_parts title_lower ctx
          else if section_type = ''tips'' then tips_parts title_lower ctx
          else if section_type = ''entertainment'' then entertainment_parts title_lower ctx
          else general_parts title_lower ctx)
         @ closing_parts ctx)"

definition generate_dynamic_fallback :: "string \<Rightarrow> string \<Rightarrow> travel_context \<Rightarrow> string" where
  "generate_dynamic_fallback section_title pdf_path ctx = join (content_parts section_title ctx)"

text \<open>
  The page-text provider (PyMuPDF in the source). Opening a document either raises or
  gives a document with a page count and, for a page index, the texts of its blocks
  (\<^verbatim>\<open>block[4]\<close> of each block); \<^const>\<open>None\<close> stands for any exception raised while the
  page is loaded or its blocks are read, all of which end in the same handler.
\<close>

datatype fitz_document = OpenFailed | Document nat "int \<Rightarrow> string list option"

definition content_length_target :: "travel_context \<Rightarrow> nat" where
  "content_length_target ctx =
     (let t0 = 300;
          t1 = (if group_type ctx = ''group'' then t0 + 100 else t0)
      in if persona_type ctx = ''travel_professional'' then t1 + 150 else t1)"

text \<open>
  The loop over the blocks of the page, with the flag \<^verbatim>\<open>section_found\<close> and the list
  \<^verbatim>\<open>extracted_content\<close> as its state. The second equation returns early where the
  source leaves the loop with \<^verbatim>\<open>break\<close>.
\<close>

fun scan_blocks :: "string \<Rightarrow> nat \<Rightarrow> bool \<Rightarrow> string list \<Rightarrow> string list \<Rightarrow> string list" where
  "scan_blocks section_title target section_found extracted [] = extracted"
| "scan_blocks section_title target section_found extracted (block # blocks) =
     (if str_in (lower section_title) (lower (strip block))
         \<or> list_ex (\<lambda>word. str_in word (lower (strip block)))
              (filter (\<lambda>word. 3 < length word) (split (lower section_title)))
         \<or> section_found
      then
        (if strip (lower (strip block)) = strip (lower section_title)
         then scan_blocks section_title target True extracted blocks
         else if length (join (if 20 < length (strip block) \<and> \<not> isdigit (strip block)
                               then extracted @ [strip block] else extracted)) > target
         then (if 20 < length (strip block) \<and> \<not> isdigit (strip block)
               then extracted @ [strip block] else extracted)
         else scan_blocks section_title target True
                (if 20 < length (strip block) \<and> \<not> isdigit (strip block)
                 then extracted @ [strip block] else extracted) blocks)
      else scan_blocks section_title target section_found extracted blocks)"

text \<open>
  The clean-up of the joined text. The bullet class of the source holds the code points
  226, 8364, 162, 194 and 183; the second lies outside the alphabet of the model.
\<close>

definition is_bullet :: "char \<Rightarrow> bool" where
  "is_bullet c = (code c = 226 \<or> code c = 162 \<or> code c = 194 \<or> code c = 183)"

text \<open>\<^verbatim>\<open>re.sub(r'\s+', ' ', s)\<close>.\<close>

function normalize_whitespace :: "string \<Rightarrow> string" where
  "normalize_whitespace [] = []"
| "normalize_whitespace (c # cs) =
     (if is_space c then CHR '' '' # normalize_whitespace (dropWhile is_space cs)
      else c # normalize_whitespace cs)"
  by pat_completeness auto
termination
  by (relation "measure length") (auto simp: less_Suc_eq_le length_dropWhile_le)

text \<open>\<^verbatim>\<open>re.sub(r'^[...;]\s*', '', s)\<close>, where the class is that of the bullets.\<close>

definition remove_leading_bullet :: "string \<Rightarrow> string" where
  "remove_leading_bullet s =
     (case s of [] \<Rightarrow> []
      | c # cs \<Rightarrow> if is_bullet c \<or> c = CHR '';'' then dropWhile is_space cs else s)"

text \<open>\<^verbatim>\<open>re.sub(r'[...]', '; ', s)\<close>.\<close>

definition bullets_to_semicolons :: "string \<Rightarrow> string" where
  "bullets_to_semicolons s = concat (map (\<lambda>c. if is_bullet c then ''; '' else [c]) s)"

text \<open>\<^verbatim>\<open>re.sub(r';\s*;', ';', s)\<close>: matches are taken from the left and do not overlap.\<close>

function remove_double_semicolons :: "string \<Rightarrow> string" where
  "remove_double_semicolons [] = []"
| "remove_double_semicolons (c # cs) =
     (if c = CHR '';'' \<and> prefix '';'' (dropWhile is_space cs)
      then CHR '';'' # remove_double_semicolons (tl (dropWhile is_space cs))
      else c # remove_double_semicolons cs)"
  by pat_completeness auto
termination
proof (relation "measure length")
  show "wf (measure length)" by simp
next
  fix c :: char and cs :: string
  assume "c = CHR '';'' \<and> prefix '';'' (dropWhile is_space cs)"
  have "length (tl (dropWhile is_space cs)) \<le> length (dropWhile is_space cs)" by simp
  also have "\<dots> \<le> length cs" by (rule length_dropWhile_le)
  finally show "(tl (dropWhile is_space cs), c # cs) \<in> measure length" by simp
next
  fix c :: char and cs :: string
  show "(cs, c # cs) \<in> measure length" by simp
qed

definition clean_content :: "string list \<Rightarrow> string" where
  "clean_content extracted_content =
     strip (remove_double_semicolons (bullets_to_semicolons (remove_leading_bullet
       (normalize_whitespace (join extracted_content)))))"

text \<open>
  \<^verbatim>\<open>extract_dynamic_content(pdf_analyzer, pdf_path, page_num, section_title, context)\<close>.
  The first argument of the source is not read; the provider takes its place here.
  Every exception of the \<^verbatim>\<open>try\<close> block ends in the fallback text.
\<close>

definition extract_dynamic_content ::
  "(string \<Rightarrow> fitz_document) \<Rightarrow> string \<Rightarrow> int \<Rightarrow> string \<Rightarrow> travel_context \<Rightarrow> string" where
  "extract_dynamic_content fitz_open pdf_path page_num section_title ctx =
     (case fitz_open pdf_path of
        OpenFailed \<Rightarrow> generate_dynamic_fallback section_title pdf_path ctx
      | Document page_count get_blocks \<Rightarrow>
          if int page_count \<le> page_num
          then generate_dynamic_fallback section_title pdf_path ctx
          else
            (case get_blocks page_num of
               None \<Rightarrow> generate_dynamic_fallback section_title pdf_path ctx
             | Some text_blocks \<Rightarrow>
                 (let extracted_content =
                        scan_blocks section_title (content_length_target ctx) False [] text_blocks
                  in if extracted_content \<noteq> []
                     then (if length (clean_content extracted_content) < 100
                           then generate_dynamic_fallback section_title pdf_path ctx
                           else clean_content extracted_content)
                     else generate_dynamic_fallback section_title pdf_path ctx)))"

section \<open>The ranking pipeline\<close>

text \<open>
  A section of an outline is a dictionary read with \<^verbatim>\<open>.get\<close> and a default, so each key
  may be absent. The structure extractor gives the first three keys; the pipeline adds
  the last two.
\<close>

record outline_section =
  sec_text :: "string option"
  sec_page :: "int option"
  sec_level :: "int option"
  sec_relevance_score :: "rat option"
  sec_dynamic_content :: "string option"

record structured_content =
  title :: "string option"
  outline :: "outline_section list option"

record document_structure =
  doc_document_name :: string
  structured_outline :: structured_content

text \<open>The dictionary \<^verbatim>\<open>section_dict\<close> of the ranking step.\<close>

record section_dict =
  document_name :: string
  page_number :: int
  section_title :: string
  dynamic_content :: string
  level :: int
  relevance_score :: rat

datatype pdf_error = PDFAnalysisError | PDFValidationError | OtherException

text \<open>\<^verbatim>\<open>d.get(key, default)\<close> on a key that may be absent.\<close>

definition get_default :: "'a option \<Rightarrow> 'a \<Rightarrow> 'a" where
  "get_default v d = (case v of None \<Rightarrow> d | Some x \<Rightarrow> x)"

text \<open>
  \<^verbatim>\<open>Path(p).name\<close> on a POSIX path: the last component, where empty components and
  \<^verbatim>\<open>.\<close> components do not count; the empty string when there is none.
\<close>

fun split_on :: "char \<Rightarrow> string \<Rightarrow> string \<Rightarrow> string list" where
  "split_on sep cur [] = [cur]"
| "split_on sep cur (c # cs) =
     (if c = sep then cur # split_on sep [] cs else split_on sep (cur @ [c]) cs)"

definition path_name :: "string \<Rightarrow> string" where
  "path_name p =
     (case filter (\<lambda>part. part \<noteq> [] \<and> part \<noteq> ''.'') (split_on CHR ''/'' [] p) of
        [] \<Rightarrow> []
      | part # parts \<Rightarrow> last (part # parts))"

text \<open>The body of the loop over the outline in \<^verbatim>\<open>process_documents_dynamic\<close>.\<close>

definition enhance_section ::
  "(string \<Rightarrow> fitz_document) \<Rightarrow> travel_context \<Rightarrow> string \<Rightarrow> outline_section \<Rightarrow> outline_section" where
  "enhance_section fitz_open ctx pdf_path sec =
     (let section_title = get_default (sec_text sec) [];
          page_number = get_default (sec_page sec) 0;
          relevance_score = calculate_dynamic_relevance section_title section_title ctx
                              (path_name pdf_path) page_number;
          dynamic_content = extract_dynamic_content fitz_open pdf_path page_number
                              section_title ctx
      in sec\<lparr>sec_relevance_score := Some relevance_score,
              sec_dynamic_content := Some dynamic_content\<rparr>)"

text \<open>
  One pass of the loop over \<^verbatim>\<open>pdf_files\<close>: the \<^verbatim>\<open>try\<close> block with its handler, which
  goes on with the next file. The structure extractor is the only call of the block
  that raises; it is a parameter, with \<^const>\<open>Inl\<close> for an exception.
\<close>

definition process_document ::
  "(string \<Rightarrow> pdf_error + structured_content) \<Rightarrow> (string \<Rightarrow> fitz_document) \<Rightarrow> travel_context
     \<Rightarrow> document_structure list \<Rightarrow> string \<Rightarrow> document_structure list" where
  "process_document analyze_pdf fitz_open ctx processed_documents pdf_path =
     (case analyze_pdf pdf_path of
        Inl e \<Rightarrow> processed_documents
      | Inr content \<Rightarrow>
          processed_documents @
            [\<lparr>doc_document_name = path_name pdf_path,
              structured_outline = content\<lparr>outline :=
                Some (map (enhance_section fitz_open ctx pdf_path)
                        (get_default (outline content) []))\<rparr>\<rparr>])"

definition process_documents_dynamic ::
  "(string \<Rightarrow> pdf_error + structured_content) \<Rightarrow> (string \<Rightarrow> fitz_document) \<Rightarrow> string list
     \<Rightarrow> travel_context \<Rightarrow> document_structure list" where
  "process_documents_dynamic analyze_pdf fitz_open pdf_files ctx =
     foldl (process_document analyze_pdf fitz_open ctx) [] pdf_files"

text \<open>The dictionary built for one section of one document in the ranking step.\<close>

definition make_section_dict :: "string \<Rightarrow> outline_section \<Rightarrow> section_dict" where
  "make_section_dict name sec =
     \<lparr>document_name = name,
      page_number = get_default (sec_page sec) 0,
      section_title = get_default (sec_text sec) [],
      dynamic_content = get_default (sec_dynamic_content sec) (get_default (sec_text sec) []),
      level = get_default (sec_level sec) 0,
      relevance_score = get_default (sec_relevance_score sec) 0\<rparr>"

text \<open>The two nested loops that fill \<^verbatim>\<open>all_sections\<close>.\<close>

definition all_sections :: "document_structure list \<Rightarrow> section_dict list" where
  "all_sections processed_documents =
     foldl (\<lambda>acc doc.
              foldl (\<lambda>acc' sec. acc' @ [make_section_dict (doc_document_name doc) sec])
                acc (get_default (outline (structured_outline doc)) []))
       [] processed_documents"

text \<open>
  \<^verbatim>\<open>sorted(xs, key=..., reverse=True)\<close>. Python's sort is stable, and stays so with
  \<^verbatim>\<open>reverse=True\<close>: elements with equal keys keep their order. It is modelled as the
  insertion sort with that behaviour.
\<close>

fun insert_reverse :: "('a \<Rightarrow> rat) \<Rightarrow> 'a \<Rightarrow> 'a list \<Rightarrow> 'a list" where
  "insert_reverse key x [] = [x]"
| "insert_reverse key x (y # ys) =
     (if key y \<le> key x then x # y # ys else y # insert_reverse key x ys)"

definition sorted_reverse :: "('a \<Rightarrow> rat) \<Rightarrow> 'a list \<Rightarrow> 'a list" where
  "sorted_reverse key xs = foldr (insert_reverse key) xs []"

text \<open>
  \<^verbatim>\<open>analyze_and_rank_sections\<close>. The texts, the model and the context are not read by the
  source; the statistics it prints do not change the result.
\<close>

definition analyze_and_rank_sections ::
  "string \<Rightarrow> string \<Rightarrow> document_structure list \<Rightarrow> travel_context \<Rightarrow> section_dict list" where
  "analyze_and_rank_sections persona_text job_text processed_documents ctx =
     sorted_reverse relevance_score (all_sections processed_documents)"

section \<open>The output assembler\<close>

record output_metadata =
  input_documents :: "string list"
  persona :: string
  job_to_be_done :: string
  processing_timestamp :: string

record extracted_section =
  es_document :: string
  es_section_title :: string
  importance_rank :: int
  es_page_number :: int

record analysis_item =
  sa_document :: string
  refined_text :: string
  sa_page_number :: int

record output_data =
  metadata :: output_metadata
  extracted_sections :: "extracted_section list"
  subsection_analysis :: "analysis_item list"

text \<open>\<^verbatim>\<open>enumerate(xs, i)\<close>.\<close>

fun enumerate_from :: "int \<Rightarrow> 'a list \<Rightarrow> (int \<times> 'a) list" where
  "enumerate_from i [] = []"
| "enumerate_from i (x # xs) = (i, x) # enumerate_from (i + 1) xs"

text \<open>
  An entry of \<^verbatim>\<open>document_info\<close> is what the input file holds for a document: a
  dictionary from strings to strings, or a plain string. \<^verbatim>\<open>str(doc)\<close> of a dictionary
  is written out for keys and values that need no escaping.
\<close>

datatype py_error = AttributeError | IOError

datatype document_entry = DocDict "(string \<times> string) list" | DocStr string

definition str_dict :: "(string \<times> string) list \<Rightarrow> string" where
  "str_dict d =
     ''{'' @ concat (case map (\<lambda>(k, v). [CHR 39] @ k @ [CHR 39] @ '': '' @ [CHR 39] @ v @ [CHR 39]) d of
                      [] \<Rightarrow> []
                    | e # es \<Rightarrow> e # map (\<lambda>e'. '', '' @ e') es) @ ''}''"

text \<open>\<^verbatim>\<open>doc.get("filename", doc.get("name", str(doc)))\<close> on a dictionary.\<close>

definition document_label :: "(string \<times> string) list \<Rightarrow> string" where
  "document_label doc =
     get_default (map_of doc ''filename'') (get_default (map_of doc ''name'') (str_dict doc))"

text \<open>
  The comprehension that fills \<^verbatim>\<open>input_documents\<close>: empty entries are passed over, a
  dictionary gives its label, and a non-empty string has no method \<^verbatim>\<open>get\<close>, so the
  call raises.
\<close>

fun input_document_names :: "document_entry list \<Rightarrow> py_error + string list" where
  "input_document_names [] = Inr []"
| "input_document_names (DocDict d # docs) =
     (if d = [] then input_document_names docs
      else (case input_document_names docs of
              Inl e \<Rightarrow> Inl e
            | Inr names \<Rightarrow> Inr (document_label d # names)))"
| "input_document_names (DocStr name # docs) =
     (if name = [] then input_document_names docs else Inl AttributeError)"

text \<open>
  \<^verbatim>\<open>generate_dynamic_output\<close>. The result is the record that the source serialises to
  the output file (the source returns the path of that file). The time stamp, read
  from the clock in the source, is a parameter, and so is the outcome of the write:
  when the file cannot be written the source raises \<^verbatim>\<open>IOError\<close>.
\<close>

definition generate_dynamic_output ::
  "section_dict list \<Rightarrow> string \<Rightarrow> string \<Rightarrow> document_entry list \<Rightarrow> string \<Rightarrow> bool
     \<Rightarrow> py_error + output_data" where
  "generate_dynamic_output ranked_sections persona_text job_text document_info
       current_timestamp can_write =
     (let top_5_sections = take 5 ranked_sections
      in case input_document_names document_info of
           Inl e \<Rightarrow> Inl e
         | Inr names \<Rightarrow>
             if can_write then
               Inr \<lparr>metadata =
                      \<lparr>input_documents = names,
                       persona = persona_text,
                       job_to_be_done = job_text,
                       processing_timestamp = current_timestamp\<rparr>,
                    extracted_sections =
                      map (\<lambda>(i, sec). \<lparr>es_document = document_name sec,
                                        es_section_title = section_title sec,
                                        importance_rank = i,
                                        es_page_number = page_number sec\<rparr>)
                        (enumerate_from 1 top_5_sections),
                    subsection_analysis =
                      map (\<lambda>sec. \<lparr>sa_document = document_name sec,
                                   refined_text = dynamic_content sec,
                                   sa_page_number = page_number sec\<rparr>)
                        top_5_sections\<rparr>
             else Inl IOError)"

section \<open>The scoring formula of the specification\<close>

text \<open>
  The definitions of this section follow the words of the specification, not the
  source; the scorer of the source is compared with them below. The weight of a token
  is its entry in the keyword table, and 0 for a token that has none.
\<close>

definition spec_keyword_weight :: "string \<Rightarrow> int" where
  "spec_keyword_weight word =
     (case map_of travel_keywords word of Some weight \<Rightarrow> weight | None \<Rightarrow> 0)"

text \<open>The average weight per token, scaled by 10.\<close>

definition spec_base_score :: "string list \<Rightarrow> rat" where
  "spec_base_score words =
     of_int (sum_list (map spec_keyword_weight words)) / of_nat (length words) * 10"

text \<open>
  The pattern bonus: over all pattern definitions, the number of phrases of the
  pattern that occur in the text, times the multiplier of the pattern, times 5.
\<close>

definition spec_pattern_bonus :: "string \<Rightarrow> rat" where
  "spec_pattern_bonus full_text =
     sum_list (map (\<lambda>(pattern_name, pattern_info).
                      of_nat (length (filter (\<lambda>phrase. str_in phrase full_text)
                                        (pattern_keywords pattern_info)))
                        * weight_multiplier pattern_info * 5)
                 content_patterns)"

text \<open>
  The bonus of one activity preference: 0.2 when the cue set tied to the preference
  occurs in the text; the preferences \<^verbatim>\<open>relaxation\<close> and \<^verbatim>\<open>nature\<close> have no cue set.
\<close>

definition spec_preference_bonus :: "string \<Rightarrow> string \<Rightarrow> rat" where
  "spec_preference_bonus full_text preference =
     (if (preference = ''adventure'' \<and> any_in [''adventure'', ''outdoor'', ''active''] full_text)
         \<or> (preference = ''cultural'' \<and> any_in [''cultural'', ''museum'', ''historical''] full_text)
         \<or> (preference = ''culinary'' \<and> any_in [''food'', ''culinary'', ''restaurant''] full_text)
         \<or> (preference = ''nightlife'' \<and> any_in [''nightlife'', ''entertainment'', ''bars''] full_text)
      then 2 / 10 else 0)"

text \<open>A bonus that applies when an attribute of the context meets a cue in the text.\<close>

definition spec_bonus :: "bool \<Rightarrow> rat \<Rightarrow> rat" where
  "spec_bonus applies amount = (if applies then amount else 0)"

text \<open>The context multiplier: 1.0 plus every bonus that applies, each on its own.\<close>

definition spec_context_multiplier :: "travel_context \<Rightarrow> string \<Rightarrow> rat" where
  "spec_context_multiplier ctx full_text =
     1
     + spec_bonus (persona_type ctx = ''travel_professional''
                   \<and> any_in [''guide'', ''comprehensive'', ''planning''] full_text) (3 / 10)
     + spec_bonus (group_type ctx = ''group''
                   \<and> any_in [''group'', ''friends'', ''together''] full_text) (4 / 10)
     + spec_bonus (age_group ctx = ''young_adult''
                   \<and> any_in [''nightlife'', ''adventure'', ''budget'', ''student''] full_text) (3 / 10)
     + spec_bonus (age_group ctx = ''family''
                   \<and> any_in [''family'', ''safe'', ''activities'', ''educational''] full_text) (3 / 10)
     + spec_bonus (budget_level ctx = ''budget''
                   \<and> any_in [''budget'', ''cheap'', ''affordable'', ''tips''] full_text) (2 / 10)
     + spec_bonus (budget_level ctx = ''luxury''
                   \<and> any_in [''luxury'', ''premium'', ''exclusive'', ''high-end''] full_text) (2 / 10)
     + sum_list (map (spec_preference_bonus full_text) (activity_preferences ctx))"

text \<open>No token of the text has an entry in the keyword table.\<close>

definition keyword_free :: "string \<Rightarrow> string \<Rightarrow> bool" where
  "keyword_free heading body =
     list_all (\<lambda>word. map_of travel_keywords word = None)
       (findall_words (full_text_of heading body))"

text \<open>No phrase of any content pattern occurs in the text.\<close>

definition pattern_free :: "string \<Rightarrow> string \<Rightarrow> bool" where
  "pattern_free heading body =
     list_all (\<lambda>(pattern_name, pattern_info).
                 list_all (\<lambda>phrase. \<not> str_in phrase (full_text_of heading body))
                   (pattern_keywords pattern_info))
       content_patterns"

section \<open>Properties of the output assembler\<close>

lemma map_snd_enumerate_from: "map snd (enumerate_from i xs) = xs"
  by (induction xs arbitrary: i) simp_all

lemma length_enumerate_from: "length (enumerate_from i xs) = length xs"
  by (induction xs arbitrary: i) simp_all

lemma map_fst_enumerate_from: "map fst (enumerate_from i xs) = [i..i + int (length xs) - 1]"
proof (induction xs arbitrary: i)
  case Nil
  show ?case by simp
next
  case (Cons x xs)
  have "[i..i + int (length (x # xs)) - 1] = i # [i + 1..i + 1 + int (length xs) - 1]"
    by (subst upto_rec1) (simp_all add: add.commute add.left_commute)
  with Cons show ?case by simp
qed

text \<open>The output is produced exactly when no entry is a non-empty string and the file can be written.\<close>

lemma input_document_names_ok:
  "(\<exists>names. input_document_names docs = Inr names)
     \<longleftrightarrow> list_all (\<lambda>doc. case doc of DocDict d \<Rightarrow> True | DocStr name \<Rightarrow> name = []) docs"
  by (induction docs rule: input_document_names.induct) (auto split: sum.splits)

lemma output_emitted_iff:
  "(\<exists>out. generate_dynamic_output rs p j di ts can_write = Inr out)
     \<longleftrightarrow> can_write \<and> list_all (\<lambda>doc. case doc of DocDict d \<Rightarrow> True | DocStr name \<Rightarrow> name = []) di"
  using input_document_names_ok [of di]
  by (auto simp: generate_dynamic_output_def Let_def split: sum.splits)

lemma output_sections:
  assumes "generate_dynamic_output rs p j di ts can_write = Inr out"
  shows "extracted_sections out =
           map (\<lambda>(i, sec). \<lparr>es_document = document_name sec,
                             es_section_title = section_title sec,
                             importance_rank = i,
                             es_page_number = page_number sec\<rparr>)
             (enumerate_from 1 (take 5 rs))"
    and "subsection_analysis out =
           map (\<lambda>sec. \<lparr>sa_document = document_name sec,
                        refined_text = dynamic_content sec,
                        sa_page_number = page_number sec\<rparr>)
             (take 5 rs)"
  using assms
  by (auto simp: generate_dynamic_output_def Let_def split: sum.splits if_splits)

text \<open>
  Claim C6. For every ranked sequence of \<open>N\<close> sections, the output that the assembler
  emits has \<open>min 5 N\<close> entries in \<^verbatim>\<open>extracted_sections\<close> and as many in
  \<^verbatim>\<open>subsection_analysis\<close>, hence at most five; at each index both carry the document
  and the page of the section at that index among the first five ranked sections; and
  the values of \<^verbatim>\<open>importance_rank\<close> are \<open>1, 2, \<dots>, min 5 N\<close> in this order.
\<close>

theorem output_top_five:
  assumes "generate_dynamic_output rs p j di ts can_write = Inr out"
  shows "length (extracted_sections out) = min 5 (length rs)
   \<and> length (subsection_analysis out) = min 5 (length rs)
   \<and> map (\<lambda>e. (es_document e, es_page_number e)) (extracted_sections out)
       = map (\<lambda>s. (document_name s, page_number s)) (take 5 rs)
   \<and> map (\<lambda>a. (sa_document a, sa_page_number a)) (subsection_analysis out)
       = map (\<lambda>s. (document_name s, page_number s)) (take 5 rs)
   \<and> map importance_rank (extracted_sections out) = [1..int (min 5 (length rs))]"
proof -
  note secs = output_sections [OF assms]
  have l1: "length (extracted_sections out) = min 5 (length rs)"
    by (simp add: secs length_enumerate_from min.commute)
  have l2: "length (subsection_analysis out) = min 5 (length rs)"
    by (simp add: secs min.commute)
  have "map (\<lambda>e. (es_document e, es_page_number e)) (extracted_sections out)
       = map (\<lambda>s. (document_name s, page_number s)) (map snd (enumerate_from 1 (take 5 rs)))"
    by (simp add: secs comp_def case_prod_beta)
  then have k1: "map (\<lambda>e. (es_document e, es_page_number e)) (extracted_sections out)
       = map (\<lambda>s. (document_name s, page_number s)) (take 5 rs)"
    by (simp only: map_snd_enumerate_from)
  have k2: "map (\<lambda>a. (sa_document a, sa_page_number a)) (subsection_analysis out)
       = map (\<lambda>s. (document_name s, page_number s)) (take 5 rs)"
    by (simp add: secs comp_def)
  have "map importance_rank (extracted_sections out) = map fst (enumerate_from 1 (take 5 rs))"
    by (simp add: secs comp_def case_prod_beta)
  then have r: "map importance_rank (extracted_sections out) = [1..int (min 5 (length rs))]"
    by (simp add: map_fst_enumerate_from min.commute)
  from l1 l2 k1 k2 r show ?thesis by blast
qed

theorem output_top_five_witness:
  "generate_dynamic_output
     (replicate 7 \<lparr>document_name = ''city.pdf'', page_number = 2, section_title = ''Nightlife'',
                   dynamic_content = ''Bars and clubs.'', level = 1, relevance_score = 40\<rparr>)
     ''Travel blogger'' ''Plan a trip'' [DocDict [(''filename'', ''city.pdf'')]] ''now'' True
   = Inr (projr (generate_dynamic_output
     (replicate 7 \<lparr>document_name = ''city.pdf'', page_number = 2, section_title = ''Nightlife'',
                   dynamic_content = ''Bars and clubs.'', level = 1, relevance_score = 40\<rparr>)
     ''Travel blogger'' ''Plan a trip'' [DocDict [(''filename'', ''city.pdf'')]] ''now'' True))
   \<and> map importance_rank (extracted_sections (projr (generate_dynamic_output
     (replicate 7 \<lparr>document_name = ''city.pdf'', page_number = 2, section_title = ''Nightlife'',
                   dynamic_content = ''Bars and clubs.'', level = 1, relevance_score = 40\<rparr>)
     ''Travel blogger'' ''Plan a trip'' [DocDict [(''filename'', ''city.pdf'')]] ''now'' True)))
     = [1, 2, 3, 4, 5]
   \<and> length (subsection_analysis (projr (generate_dynamic_output
     (replicate 7 \<lparr>document_name = ''city.pdf'', page_number = 2, section_title = ''Nightlife'',
                   dynamic_content = ''Bars and clubs.'', level = 1, relevance_score = 40\<rparr>)
     ''Travel blogger'' ''Plan a trip'' [DocDict [(''filename'', ''city.pdf'')]] ''now'' True)))
     = 5"
proof -
  let ?rs = "replicate 7 \<lparr>document_name = ''city.pdf'', page_number = 2,
                section_title = ''Nightlife'', dynamic_content = ''Bars and clubs.'',
                level = 1, relevance_score = 40\<rparr>"
  let ?out = "generate_dynamic_output ?rs ''Travel blogger'' ''Plan a trip''
                [DocDict [(''filename'', ''city.pdf'')]] ''now'' True"
  have h: "?out = Inr (projr ?out)"
    by (simp add: generate_dynamic_output_def Let_def)
  have "[1..(5::int)] = [1, 2, 3, 4, 5]" by code_simp
  then have u: "[1..int (min 5 (length ?rs))] = [1, 2, 3, 4, 5]" by simp
  from output_top_five [OF h] h u show ?thesis by simp
qed

section \<open>Properties of the ranking step\<close>

lemma mset_insert_reverse: "mset (insert_reverse key x ys) = add_mset x (mset ys)"
  by (induction ys) simp_all

lemma set_insert_reverse: "set (insert_reverse key x ys) = insert x (set ys)"
  by (induction ys) auto

lemma sorted_insert_reverse:
  "sorted_wrt (\<lambda>a b. key b \<le> key a) ys
   \<Longrightarrow> sorted_wrt (\<lambda>a b. key b \<le> key a) (insert_reverse key x ys)"
  by (induction ys) (auto simp: set_insert_reverse)

lemma filter_insert_reverse:
  "filter (\<lambda>a. key a = k) (insert_reverse key x ys)
     = (if key x = k then x # filter (\<lambda>a. key a = k) ys else filter (\<lambda>a. key a = k) ys)"
  by (induction ys) auto

lemma mset_sorted_reverse: "mset (sorted_reverse key xs) = mset xs"
  by (induction xs) (simp_all add: sorted_reverse_def mset_insert_reverse)

lemma sorted_sorted_reverse: "sorted_wrt (\<lambda>a b. key b \<le> key a) (sorted_reverse key xs)"
proof (induction xs)
  case Nil
  show ?case by (simp add: sorted_reverse_def)
next
  case (Cons x xs)
  then show ?case using sorted_insert_reverse [of key "sorted_reverse key xs" x]
    by (simp add: sorted_reverse_def)
qed

lemma stable_sorted_reverse:
  "filter (\<lambda>a. key a = k) (sorted_reverse key xs) = filter (\<lambda>a. key a = k) xs"
proof (induction xs)
  case Nil
  show ?case by (simp add: sorted_reverse_def)
next
  case (Cons x xs)
  have "sorted_reverse key (x # xs) = insert_reverse key x (sorted_reverse key xs)"
    by (simp add: sorted_reverse_def)
  with Cons show ?case by (simp add: filter_insert_reverse)
qed

lemma foldl_append_map: "foldl (\<lambda>acc x. acc @ [f x]) acc xs = acc @ map f xs"
  by (induction xs arbitrary: acc) simp_all

lemma foldl_append_concat:
  "foldl (\<lambda>acc x. acc @ g x) acc xs = acc @ concat (map g xs)"
  by (induction xs arbitrary: acc) simp_all

lemma all_sections_concat:
  "all_sections docs =
     concat (map (\<lambda>doc. map (make_section_dict (doc_document_name doc))
                          (get_default (outline (structured_outline doc)) [])) docs)"
  using foldl_append_concat [of "\<lambda>doc. map (make_section_dict (doc_document_name doc))
                          (get_default (outline (structured_outline doc)) [])" "[]" docs]
  by (simp add: all_sections_def foldl_append_map)

text \<open>
  Claim C5. For every list of processed documents, the ranked sequence is in descending
  order of \<^verbatim>\<open>relevance_score\<close>; for every score, the sections with that score appear
  in the ranked sequence in the order in which they were met (the documents in their
  order, the outline of each document in its order); and the ranked sequence holds the
  same sections as were met, each as often.
\<close>

theorem ranking_sorted_stable:
  "sorted_wrt (\<lambda>a b. relevance_score b \<le> relevance_score a)
     (analyze_and_rank_sections persona_text job_text docs ctx)
   \<and> (\<forall>k. filter (\<lambda>s. relevance_score s = k)
            (analyze_and_rank_sections persona_text job_text docs ctx)
          = filter (\<lambda>s. relevance_score s = k)
              (concat (map (\<lambda>doc. map (make_section_dict (doc_document_name doc))
                                     (get_default (outline (structured_outline doc)) [])) docs)))
   \<and> mset (analyze_and_rank_sections persona_text job_text docs ctx)
       = mset (concat (map (\<lambda>doc. map (make_section_dict (doc_document_name doc))
                                     (get_default (outline (structured_outline doc)) [])) docs))"
  by (simp add: analyze_and_rank_sections_def sorted_sorted_reverse stable_sorted_reverse
        mset_sorted_reverse all_sections_concat [symmetric])

section \<open>Properties of the document loop\<close>

text \<open>What one document adds to the list of processed documents.\<close>

lemma process_document_append:
  "process_document analyze_pdf fitz_open ctx acc pdf_path =
     acc @ process_document analyze_pdf fitz_open ctx [] pdf_path"
  by (simp add: process_document_def split: sum.splits)

lemma process_documents_concat:
  "foldl (process_document analyze_pdf fitz_open ctx) acc pdf_files =
     acc @ concat (map (process_document analyze_pdf fitz_open ctx []) pdf_files)"
proof (induction pdf_files arbitrary: acc)
  case Nil
  show ?case by simp
next
  case (Cons pdf_path pdf_files)
  show ?case
    by (simp add: Cons.IH process_document_append [of _ _ _ acc pdf_path])
qed

lemma enhance_section_keeps:
  "sec_text (enhance_section fitz_open ctx pdf_path sec) = sec_text sec"
  "sec_page (enhance_section fitz_open ctx pdf_path sec) = sec_page sec"
  "sec_level (enhance_section fitz_open ctx pdf_path sec) = sec_level sec"
  by (simp_all add: enhance_section_def Let_def)

lemma document_names_of_one:
  "map doc_document_name (process_document analyze_pdf fitz_open ctx [] pdf_path)
     = (case analyze_pdf pdf_path of Inl e \<Rightarrow> [] | Inr content \<Rightarrow> [path_name pdf_path])"
  by (simp add: process_document_def split: sum.splits)

lemma entries_of_one:
  "map (\<lambda>s. (document_name s, section_title s, page_number s, level s))
     (all_sections (process_document analyze_pdf fitz_open ctx [] pdf_path))
   = (case analyze_pdf pdf_path of
        Inl e \<Rightarrow> []
      | Inr content \<Rightarrow>
          map (\<lambda>sec. (path_name pdf_path, get_default (sec_text sec) [],
                       get_default (sec_page sec) 0, get_default (sec_level sec) 0))
            (get_default (outline content) []))"
  by (simp add: process_document_def all_sections_concat get_default_def comp_def
        make_section_dict_def enhance_section_keeps split: sum.splits)

lemma all_sections_append:
  "all_sections (xs @ ys) = all_sections xs @ all_sections ys"
  by (simp add: all_sections_concat)

lemma all_sections_concat_lists:
  "all_sections (concat dss) = concat (map all_sections dss)"
  by (induction dss) (simp_all add: all_sections_append, simp add: all_sections_concat)

text \<open>
  Claim C8. For every list of input documents and every behaviour of the structure
  extractor: the processed documents are, in the order of the input, exactly the
  documents on which the extractor did not raise; the sections met are exactly the
  outline entries of those documents, so a document that raised adds none and every
  later document is still processed; and the ranked output holds these sections and
  no others.
\<close>

theorem failed_documents_skipped:
  "map doc_document_name (process_documents_dynamic analyze_pdf fitz_open pdf_files ctx)
     = concat (map (\<lambda>pdf_path. case analyze_pdf pdf_path of
                                  Inl e \<Rightarrow> [] | Inr content \<Rightarrow> [path_name pdf_path]) pdf_files)
   \<and> map (\<lambda>s. (document_name s, section_title s, page_number s, level s))
       (all_sections (process_documents_dynamic analyze_pdf fitz_open pdf_files ctx))
     = concat (map (\<lambda>pdf_path. case analyze_pdf pdf_path of
          Inl e \<Rightarrow> []
        | Inr content \<Rightarrow>
            map (\<lambda>sec. (path_name pdf_path, get_default (sec_text sec) [],
                         get_default (sec_page sec) 0, get_default (sec_level sec) 0))
              (get_default (outline content) [])) pdf_files)
   \<and> mset (map (\<lambda>s. (document_name s, section_title s, page_number s, level s))
       (analyze_and_rank_sections persona_text job_text
          (process_documents_dynamic analyze_pdf fitz_open pdf_files ctx) ctx))
     = mset (concat (map (\<lambda>pdf_path. case analyze_pdf pdf_path of
          Inl e \<Rightarrow> []
        | Inr content \<Rightarrow>
            map (\<lambda>sec. (path_name pdf_path, get_default (sec_text sec) [],
                         get_default (sec_page sec) 0, get_default (sec_level sec) 0))
              (get_default (outline content) [])) pdf_files))"
proof -
  let ?docs = "process_documents_dynamic analyze_pdf fitz_open pdf_files ctx"
  let ?entry = "\<lambda>s. (document_name s, section_title s, page_number s, level s)"
  have docs: "?docs = concat (map (process_document analyze_pdf fitz_open ctx []) pdf_files)"
    by (simp add: process_documents_dynamic_def process_documents_concat)
  have names: "map doc_document_name ?docs
     = concat (map (\<lambda>pdf_path. case analyze_pdf pdf_path of
                                  Inl e \<Rightarrow> [] | Inr content \<Rightarrow> [path_name pdf_path]) pdf_files)"
    by (simp add: docs map_concat comp_def document_names_of_one)
  have entries: "map ?entry (all_sections ?docs)
     = concat (map (\<lambda>pdf_path. case analyze_pdf pdf_path of
          Inl e \<Rightarrow> []
        | Inr content \<Rightarrow>
            map (\<lambda>sec. (path_name pdf_path, get_default (sec_text sec) [],
                         get_default (sec_page sec) 0, get_default (sec_level sec) 0))
              (get_default (outline content) [])) pdf_files)"
    by (simp add: docs all_sections_concat_lists map_concat comp_def entries_of_one)
  have "mset (map ?entry (analyze_and_rank_sections persona_text job_text ?docs ctx))
          = mset (map ?entry (all_sections ?docs))"
    by (simp add: analyze_and_rank_sections_def mset_sorted_reverse)
  with names entries show ?thesis by simp
qed

section \<open>Properties of the content synthesiser\<close>

lemma join_nonempty: "x \<noteq> [] \<Longrightarrow> join (x # xs) \<noteq> []"
  by (cases xs) simp_all

lemma content_parts_first:
  "\<exists>first rest. content_parts heading ctx = first # rest \<and> first \<noteq> []"
  by (simp add: content_parts_def Let_def guide_parts_def activities_parts_def
        culinary_parts_def tips_parts_def entertainment_parts_def general_parts_def)

lemma fallback_nonempty: "generate_dynamic_fallback heading pdf_path ctx \<noteq> []"
proof -
  obtain first rest where "content_parts heading ctx = first # rest" and "first \<noteq> []"
    using content_parts_first by blast
  then show ?thesis by (simp add: generate_dynamic_fallback_def join_nonempty)
qed

lemma extract_dynamic_content_cases:
  "extract_dynamic_content fitz_open pdf_path page_num heading ctx
     = generate_dynamic_fallback heading pdf_path ctx
   \<or> 100 \<le> length (extract_dynamic_content fitz_open pdf_path page_num heading ctx)"
  by (simp add: extract_dynamic_content_def Let_def split: fitz_document.splits option.splits)

lemma extract_dynamic_content_nonempty:
  "extract_dynamic_content fitz_open pdf_path page_num heading ctx \<noteq> []"
  using extract_dynamic_content_cases [of fitz_open pdf_path page_num heading ctx]
    fallback_nonempty [of heading pdf_path ctx]
  by auto

lemma provider_failure_fallback:
  "fitz_open pdf_path = OpenFailed
   \<or> (\<exists>n get_blocks. fitz_open pdf_path = Document n get_blocks
         \<and> (int n \<le> page_num \<or> get_blocks page_num = None))
   \<Longrightarrow> extract_dynamic_content fitz_open pdf_path page_num heading ctx
         = generate_dynamic_fallback heading pdf_path ctx"
  by (auto simp: extract_dynamic_content_def)

text \<open>
  Claim C7. For every non-empty section title, every context and every behaviour of the
  page-text provider, the content synthesiser returns a non-empty string; the fallback
  text is never empty; and when the provider fails (the document cannot be opened, the
  page index is not below the page count, or reading the page raises) the result is the
  fallback text.
\<close>

theorem synthesizer_never_empty:
  assumes "heading \<noteq> []"
  shows "extract_dynamic_content fitz_open pdf_path page_num heading ctx \<noteq> []
    \<and> generate_dynamic_fallback heading pdf_path ctx \<noteq> []
    \<and> ((fitz_open pdf_path = OpenFailed
         \<or> (\<exists>n get_blocks. fitz_open pdf_path = Document n get_blocks
               \<and> (int n \<le> page_num \<or> get_blocks page_num = None)))
        \<longrightarrow> extract_dynamic_content fitz_open pdf_path page_num heading ctx
              = generate_dynamic_fallback heading pdf_path ctx)"
  using extract_dynamic_content_nonempty [of fitz_open pdf_path page_num heading ctx]
    fallback_nonempty [of heading pdf_path ctx]
    provider_failure_fallback [of fitz_open pdf_path page_num heading ctx]
  by blast

theorem synthesizer_never_empty_witness:
  "''Nightlife'' \<noteq> []
   \<and> (\<lambda>p. OpenFailed) ''city.pdf'' = OpenFailed
   \<and> extract_dynamic_content (\<lambda>p. OpenFailed) ''city.pdf'' 3 ''Nightlife'' initial_context \<noteq> []
   \<and> extract_dynamic_content (\<lambda>p. OpenFailed) ''city.pdf'' 3 ''Nightlife'' initial_context
       = generate_dynamic_fallback ''Nightlife'' ''city.pdf'' initial_context"
  using synthesizer_never_empty
    [of "''Nightlife''" "\<lambda>p. OpenFailed" "''city.pdf''" 3 initial_context]
  by simp

section \<open>Properties of the context analyser\<close>

lemma str_in_iff: "str_in sub s \<longleftrightarrow> (\<exists>pre post. s = pre @ sub @ post)"
proof (induction s)
  case Nil
  show ?case by auto
next
  case (Cons c cs)
  show ?case
  proof
    assume "str_in sub (c # cs)"
    then consider "prefix sub (c # cs)" | "str_in sub cs" by auto
    then show "\<exists>pre post. c # cs = pre @ sub @ post"
    proof cases
      case 1
      then obtain post where "c # cs = sub @ post" by (auto simp: prefix_def)
      then have "c # cs = [] @ sub @ post" by simp
      then show ?thesis by blast
    next
      case 2
      with Cons obtain pre post where "cs = pre @ sub @ post" by blast
      then have "c # cs = (c # pre) @ sub @ post" by simp
      then show ?thesis by blast
    qed
  next
    assume "\<exists>pre post. c # cs = pre @ sub @ post"
    then obtain pre post where eq: "c # cs = pre @ sub @ post" by blast
    show "str_in sub (c # cs)"
    proof (cases pre)
      case Nil
      with eq have "prefix sub (c # cs)" by (simp add: prefix_def)
      then show ?thesis by simp
    next
      case (Cons d pre')
      with eq have "cs = pre' @ sub @ post" by simp
      with Cons.IH have "str_in sub cs" by blast
      then show ?thesis by simp
    qed
  qed
qed

lemma str_in_suffix_part: "str_in (a @ b) s \<Longrightarrow> str_in b s"
proof -
  assume "str_in (a @ b) s"
  then obtain pre post where "s = pre @ (a @ b) @ post" by (auto simp: str_in_iff)
  then have "s = (pre @ a) @ b @ post" by simp
  then show "str_in b s" unfolding str_in_iff by blast
qed

lemma long_weekend_is_weekend: "str_in ''long weekend'' s \<Longrightarrow> str_in ''weekend'' s"
  using str_in_suffix_part [of "''long ''" "''weekend''" s] by simp

lemma search_number_unit_digits:
  "search_number_unit unit s = Some n \<Longrightarrow> n \<noteq> [] \<and> list_all is_digit n"
proof (induction s)
  case Nil
  then show ?case by simp
next
  case (Cons c cs)
  then show ?case
    by (auto simp: list_all_iff split: if_splits dest: set_takeWhileD)
qed

lemma foldl_keeps: "(\<And>c x. g (f c x) = g c) \<Longrightarrow> g (foldl f c xs) = g c"
  by (induction xs arbitrary: c) simp_all

lemma analyze_activities_fields:
  "trip_duration (analyze_activities combined ctx) = trip_duration ctx"
  "group_size (analyze_activities combined ctx) = group_size ctx"
  unfolding analyze_activities_def
  by (rule foldl_keeps, simp split: prod.splits)+

lemma analyze_budget_fields:
  "trip_duration (analyze_budget combined ctx) = trip_duration ctx"
  "group_size (analyze_budget combined ctx) = group_size ctx"
  by (simp_all add: analyze_budget_def)

lemma analyze_trip_duration_group_size:
  "group_size (analyze_trip_duration combined ctx) = group_size ctx"
  by (simp add: analyze_trip_duration_def split: option.splits)

lemma analyze_age_group_fields:
  "trip_duration (analyze_age_group combined ctx) = trip_duration ctx"
  "group_size (analyze_age_group combined ctx) = group_size ctx"
  by (simp_all add: analyze_age_group_def)

lemma analyze_group_trip_duration:
  "trip_duration (analyze_group combined job_text ctx) = trip_duration ctx"
  by (simp add: analyze_group_def Let_def split: list.splits)

lemma analyze_persona_type_fields:
  "trip_duration (analyze_persona_type combined ctx) = trip_duration ctx"
  "group_size (analyze_persona_type combined ctx) = group_size ctx"
  by (simp_all add: analyze_persona_type_def)

lemma trip_duration_of_context:
  "trip_duration (analyze_persona_job_context persona_text job_text) =
     (case search_number_unit ''day'' (combined_text persona_text job_text) of
        Some n \<Rightarrow> n @ ''_days''
      | None \<Rightarrow>
     (case search_number_unit ''week'' (combined_text persona_text job_text) of
        Some n \<Rightarrow> n @ ''_weeks''
      | None \<Rightarrow>
     (if str_in ''weekend'' (combined_text persona_text job_text) then ''weekend''
      else ''unknown'')))"
proof -
  have "trip_duration (analyze_persona_job_context persona_text job_text)
      = trip_duration (analyze_trip_duration (combined_text persona_text job_text) initial_context)"
    by (simp add: analyze_persona_job_context_def Let_def analyze_activities_fields
        analyze_budget_fields)
       (simp add: analyze_trip_duration_def analyze_age_group_fields analyze_group_trip_duration
          analyze_persona_type_fields split: option.splits)
  also have "\<dots> = (case search_number_unit ''day'' (combined_text persona_text job_text) of
        Some n \<Rightarrow> n @ ''_days''
      | None \<Rightarrow>
     (case search_number_unit ''week'' (combined_text persona_text job_text) of
        Some n \<Rightarrow> n @ ''_weeks''
      | None \<Rightarrow>
     (if str_in ''weekend'' (combined_text persona_text job_text) then ''weekend''
      else ''unknown'')))"
    using long_weekend_is_weekend [of "combined_text persona_text job_text"]
    by (auto simp: analyze_trip_duration_def initial_context_def split: option.splits)
  finally show ?thesis .
qed

lemma digits_not_long_weekend:
  "n \<noteq> [] \<Longrightarrow> list_all is_digit n \<Longrightarrow> n @ rest \<noteq> ''long_weekend''"
proof (cases n)
  case Nil
  assume "n \<noteq> []"
  with Nil show ?thesis by simp
next
  case (Cons c cs)
  assume "list_all is_digit n"
  with Cons have "is_digit c" by simp
  moreover have "\<not> is_digit CHR ''l''" by (simp add: is_digit_def code_def)
  ultimately have "c \<noteq> CHR ''l''" by auto
  with Cons show ?thesis by simp
qed

text \<open>
  Claim C10. For every persona text and job text the analyser never gives the trip
  duration \<^verbatim>\<open>long_weekend\<close>: the duration is \<^verbatim>\<open>unknown\<close>, \<^verbatim>\<open>weekend\<close>, or a non-empty
  string of digits followed by \<^verbatim>\<open>_days\<close> or by \<^verbatim>\<open>_weeks\<close>. The reason is the lemma
  \<open>long_weekend_is_weekend\<close>: the pattern tried third matches whenever the fourth would.
\<close>

theorem trip_duration_never_long_weekend:
  "trip_duration (analyze_persona_job_context persona_text job_text) \<noteq> ''long_weekend''
   \<and> (trip_duration (analyze_persona_job_context persona_text job_text) = ''unknown''
      \<or> trip_duration (analyze_persona_job_context persona_text job_text) = ''weekend''
      \<or> (\<exists>n. n \<noteq> [] \<and> list_all is_digit n
              \<and> trip_duration (analyze_persona_job_context persona_text job_text) = n @ ''_days'')
      \<or> (\<exists>n. n \<noteq> [] \<and> list_all is_digit n
              \<and> trip_duration (analyze_persona_job_context persona_text job_text) = n @ ''_weeks''))"
proof -
  let ?c = "combined_text persona_text job_text"
  let ?d = "trip_duration (analyze_persona_job_context persona_text job_text)"
  show ?thesis
  proof (cases "search_number_unit ''day'' ?c")
    case (Some n)
    then have d: "?d = n @ ''_days''" by (simp add: trip_duration_of_context)
    from Some have n: "n \<noteq> [] \<and> list_all is_digit n" by (rule search_number_unit_digits)
    with d digits_not_long_weekend [of n "''_days''"] show ?thesis by auto
  next
    case None
    note day = None
    show ?thesis
    proof (cases "search_number_unit ''week'' ?c")
      case (Some n)
      with day have d: "?d = n @ ''_weeks''" by (simp add: trip_duration_of_context)
      from Some have n: "n \<noteq> [] \<and> list_all is_digit n" by (rule search_number_unit_digits)
      with d digits_not_long_weekend [of n "''_weeks''"] show ?thesis by auto
    next
      case None
      with day show ?thesis by (simp add: trip_duration_of_context)
    qed
  qed
qed

subsection \<open>The group size\<close>

lemma digit_is_word: "is_digit c \<Longrightarrow> is_word c"
  by (simp add: is_word_def)

lemma takeWhile_run_append:
  assumes "ys \<noteq> []" and "\<not> C (hd ys)"
  shows "takeWhile C (takeWhile C xs @ ys) = takeWhile C xs"
    and "dropWhile C (takeWhile C xs @ ys) = ys"
proof -
  from assms obtain y ys' where ys: "ys = y # ys'" and y: "\<not> C y" by (cases ys) auto
  have all: "\<And>x. x \<in> set (takeWhile C xs) \<Longrightarrow> C x" by (rule set_takeWhileD [THEN conjunct2])
  show "takeWhile C (takeWhile C xs @ ys) = takeWhile C xs"
    using all by (simp add: takeWhile_append2 ys y)
  show "dropWhile C (takeWhile C xs @ ys) = ys"
    using all by (simp add: dropWhile_append2 ys y)
qed

text \<open>
  The first match of the scan: nothing matches in the text before it, it is delimited
  by characters that are no word characters, and it is a run of the class.
\<close>

lemma findall_runs_first:
  "findall_runs C n prev s = r # rs \<Longrightarrow>
   \<exists>pre post. s = pre @ r @ post \<and> findall_runs C n prev pre = []
      \<and> (if pre = [] then \<not> prev else \<not> is_word (last pre))
      \<and> (post = [] \<or> \<not> is_word (hd post))
      \<and> r \<noteq> [] \<and> list_all C r \<and> n \<le> length r"
proof (induction C n prev s rule: findall_runs.induct)
  case (1 C n prev)
  then show ?case by simp
next
  case (2 C n prev c cs)
  let ?run = "c # takeWhile C cs"
  let ?rest = "dropWhile C cs"
  let ?ok = "n \<le> length ?run \<and> (case ?rest of [] \<Rightarrow> True | d # _ \<Rightarrow> \<not> is_word d)"
  show ?case
  proof (cases "C c \<and> \<not> prev")
    case start: True
    have step: "findall_runs C n prev (c # cs) =
        (if ?ok then ?run # findall_runs C n True ?rest else findall_runs C n True ?rest)"
      using start by (simp only: findall_runs.simps if_True simp_thms)
    show ?thesis
    proof (cases ?ok)
      case True
      have "findall_runs C n prev (c # cs) = ?run # findall_runs C n True ?rest"
        by (rule trans [OF step if_P [OF True]])
      with "2.prems" have r: "r = ?run" by simp
      have all: "list_all C (takeWhile C cs)"
        by (auto simp: list_all_iff dest: set_takeWhileD)
      have post: "?rest = [] \<or> \<not> is_word (hd ?rest)"
        using True by (cases ?rest) auto
      have "c # cs = [] @ r @ ?rest" by (simp add: r)
      moreover have "findall_runs C n prev [] = []" by simp
      ultimately show ?thesis
        using start True all post r by (intro exI [of _ "[]"] exI [of _ ?rest]) simp
    next
      case False
      have "findall_runs C n prev (c # cs) = findall_runs C n True ?rest"
        by (rule trans [OF step if_not_P [OF False]])
      with "2.prems" have "findall_runs C n True ?rest = r # rs" by simp
      with "2.IH"(2) start False obtain pre post where
        split: "?rest = pre @ r @ post" and none: "findall_runs C n True pre = []"
        and before: "if pre = [] then \<not> True else \<not> is_word (last pre)"
        and after: "post = [] \<or> \<not> is_word (hd post)"
        and run: "r \<noteq> [] \<and> list_all C r \<and> n \<le> length r"
        by blast
      from before have pre: "pre \<noteq> []" and last: "\<not> is_word (last pre)"
        by (auto split: if_splits)
      from split pre have rest: "?rest \<noteq> []" and hd: "hd ?rest = hd pre" by auto
      from rest have notC: "\<not> C (hd ?rest)" by (rule hd_dropWhile)
      with hd have notC': "\<not> C (hd pre)" by simp
      have tw: "takeWhile C (takeWhile C cs @ pre) = takeWhile C cs"
        and dw: "dropWhile C (takeWhile C cs @ pre) = pre"
        using takeWhile_run_append [of pre C cs] pre notC' by auto
      have same: "(case pre of [] \<Rightarrow> True | d # _ \<Rightarrow> \<not> is_word d)
                    = (case ?rest of [] \<Rightarrow> True | d # _ \<Rightarrow> \<not> is_word d)"
        using pre rest hd by (cases pre; cases ?rest) auto
      let ?ok' = "n \<le> length (c # takeWhile C (takeWhile C cs @ pre))
              \<and> (case dropWhile C (takeWhile C cs @ pre) of [] \<Rightarrow> True | d # _ \<Rightarrow> \<not> is_word d)"
      have "?ok' = ?ok" by (simp only: tw dw same)
      with False have nok': "\<not> ?ok'" by blast
      have step': "findall_runs C n prev (c # takeWhile C cs @ pre) =
          (if ?ok'
           then (c # takeWhile C (takeWhile C cs @ pre))
                  # findall_runs C n True (dropWhile C (takeWhile C cs @ pre))
           else findall_runs C n True (dropWhile C (takeWhile C cs @ pre)))"
        using start by (simp only: findall_runs.simps if_True simp_thms)
      have "findall_runs C n prev (c # takeWhile C cs @ pre)
              = findall_runs C n True (dropWhile C (takeWhile C cs @ pre))"
        by (rule trans [OF step' if_not_P [OF nok']])
      then have "findall_runs C n prev (c # takeWhile C cs @ pre) = findall_runs C n True pre"
        by (simp only: dw)
      with none have none': "findall_runs C n prev ((c # takeWhile C cs) @ pre) = []" by simp
      have "c # cs = c # takeWhile C cs @ ?rest" by simp
      with split have eq: "c # cs = ((c # takeWhile C cs) @ pre) @ r @ post" by simp
      have last': "last ((c # takeWhile C cs) @ pre) = last pre" using pre by simp
      show ?thesis
        using eq none' last last' after run pre
        by (intro exI [of _ "(c # takeWhile C cs) @ pre"] exI [of _ post]) simp
    qed
  next
    case False
    with "2.prems" have "findall_runs C n (is_word c) cs = r # rs" by auto
    with "2.IH"(3) False obtain pre post where
      split: "cs = pre @ r @ post" and none: "findall_runs C n (is_word c) pre = []"
      and before: "if pre = [] then \<not> is_word c else \<not> is_word (last pre)"
      and after: "post = [] \<or> \<not> is_word (hd post)"
      and run: "r \<noteq> [] \<and> list_all C r \<and> n \<le> length r"
      by blast
    have none': "findall_runs C n prev (c # pre) = []" using False none by auto
    have last: "\<not> is_word (last (c # pre))" using before by (auto split: if_splits)
    have eq: "c # cs = (c # pre) @ r @ post" using split by simp
    show ?thesis
      using eq none' last after run
      by (intro exI [of _ "c # pre"] exI [of _ post]) simp
  qed
qed

lemma int_of_digits_nonneg_aux:
  "0 \<le> a \<Longrightarrow> list_all is_digit s \<Longrightarrow> 0 \<le> foldl (\<lambda>a c. 10 * a + digit_value c) a s"
proof (induction s arbitrary: a)
  case Nil
  then show ?case by simp
next
  case (Cons c s)
  from Cons.prems have "0 \<le> digit_value c" by (simp add: is_digit_def digit_value_def)
  with Cons.prems have "0 \<le> 10 * a + digit_value c" by simp
  with Cons show ?case by simp
qed

lemma int_of_digits_nonneg: "list_all is_digit s \<Longrightarrow> 0 \<le> int_of_digits s"
  by (simp add: int_of_digits_def int_of_digits_nonneg_aux)

lemma group_size_of_context:
  "group_size (analyze_persona_job_context persona_text job_text) =
     (if str_in ''group'' (combined_text persona_text job_text)
      then (case findall_numbers job_text of
              [] \<Rightarrow> None | n # _ \<Rightarrow> Some (int_of_digits n))
      else None)"
  by (simp add: analyze_persona_job_context_def Let_def analyze_activities_fields
        analyze_budget_fields analyze_trip_duration_group_size analyze_age_group_fields
        analyze_group_def analyze_persona_type_fields initial_context_def
      split: list.splits)

text \<open>The context that the analyser computes for the sample input of the specification.\<close>

lemma sample_context:
  "analyze_persona_job_context ''Travel blogger''
     ''Plan a 4-day trip for a group of 6 college friends to a coastal city, focusing on budget nightlife and food''
   = \<lparr>persona_type = ''content_creator'', group_type = ''group'',
      group_size = Some 4, trip_duration = ''unknown'',
      age_group = ''young_adult'', budget_level = ''budget'',
      activity_preferences = [''nightlife'', ''culinary''],
      special_requirements = []\<rparr>"
  by code_simp

text \<open>
  Claim C9, as amended. Whenever the analyser sets \<^verbatim>\<open>group_size\<close>, the word
  \<^verbatim>\<open>group\<close> occurs in the combined lower-cased text, and the recorded size is the
  value of the first integer literal of the job text alone: a non-empty run of decimal
  digits with no word character next to it on either side and with no such run in the
  text before it. The size is a non-negative integer; it is zero when that literal
  denotes zero.
\<close>

theorem group_size_first_integer_literal:
  assumes "group_size (analyze_persona_job_context persona_text job_text) = Some n"
  shows "str_in ''group'' (combined_text persona_text job_text)
    \<and> (\<exists>pre ds post. job_text = pre @ ds @ post
          \<and> ds \<noteq> [] \<and> list_all is_digit ds
          \<and> (pre = [] \<or> \<not> is_word (last pre))
          \<and> (post = [] \<or> \<not> is_word (hd post))
          \<and> findall_numbers pre = []
          \<and> n = int_of_digits ds)
    \<and> 0 \<le> n"
proof -
  from assms have g: "str_in ''group'' (combined_text persona_text job_text)"
    by (simp add: group_size_of_context split: if_splits)
  with assms obtain ds rest where f: "findall_numbers job_text = ds # rest"
    and n: "n = int_of_digits ds"
    by (auto simp: group_size_of_context split: list.splits)
  from f have "findall_runs is_digit 1 False job_text = ds # rest"
    by (simp add: findall_numbers_def)
  from findall_runs_first [OF this] obtain pre post where
    split: "job_text = pre @ ds @ post" and none: "findall_runs is_digit 1 False pre = []"
    and before: "if pre = [] then \<not> False else \<not> is_word (last pre)"
    and after: "post = [] \<or> \<not> is_word (hd post)"
    and run: "ds \<noteq> [] \<and> list_all is_digit ds \<and> 1 \<le> length ds"
    by blast
  from before have before': "pre = [] \<or> \<not> is_word (last pre)" by (auto split: if_splits)
  from run n have "0 \<le> n" by (simp add: int_of_digits_nonneg)
  moreover have "\<exists>pre ds post. job_text = pre @ ds @ post
          \<and> ds \<noteq> [] \<and> list_all is_digit ds
          \<and> (pre = [] \<or> \<not> is_word (last pre))
          \<and> (post = [] \<or> \<not> is_word (hd post))
          \<and> findall_numbers pre = []
          \<and> n = int_of_digits ds"
    using split run before' after none n
    by (intro exI [of _ pre] exI [of _ ds] exI [of _ post]) (simp add: findall_numbers_def)
  ultimately show ?thesis using g by blast
qed

theorem group_size_first_integer_literal_witness:
  "group_size (analyze_persona_job_context ''Travel blogger''
        ''Plan a 4-day trip for a group of 6 college friends to a coastal city, focusing on budget nightlife and food'') = Some 4
   \<and> str_in ''group'' (combined_text ''Travel blogger''
        ''Plan a 4-day trip for a group of 6 college friends to a coastal city, focusing on budget nightlife and food'')
   \<and> (0::int) \<le> 4"
proof -
  have h: "group_size (analyze_persona_job_context ''Travel blogger''
        ''Plan a 4-day trip for a group of 6 college friends to a coastal city, focusing on budget nightlife and food'') = Some 4"
    by (simp add: sample_context)
  from group_size_first_integer_literal [OF h] h show ?thesis by blast
qed

theorem group_size_zero_counterexample:
  "group_size (analyze_persona_job_context ''Tour guide''
      ''Plan an outing for a group with 0 budget'') = Some 0
   \<and> \<not> (0::int) < 0"
  by code_simp

subsection \<open>The sample input\<close>

text \<open>
  Claim C2, as amended. On the persona text \<^verbatim>\<open>Travel blogger\<close> and the job text of
  the specification's example, the analyser gives the persona type
  \<^verbatim>\<open>content_creator\<close>, the group type \<^verbatim>\<open>group\<close>, the group size 4 (the first integer
  literal of the job text is the 4 of \<^verbatim>\<open>4-day\<close>), the age group \<^verbatim>\<open>young_adult\<close>, the
  trip duration \<^verbatim>\<open>unknown\<close> (a hyphen between the number and \<^verbatim>\<open>day\<close> is no match
  of the duration pattern), the budget level \<^verbatim>\<open>budget\<close>, and activity preferences that
  contain \<^verbatim>\<open>nightlife\<close> and \<^verbatim>\<open>culinary\<close>.
\<close>

theorem sample_context_fields:
  "persona_type (analyze_persona_job_context ''Travel blogger''
        ''Plan a 4-day trip for a group of 6 college friends to a coastal city, focusing on budget nightlife and food'') = ''content_creator''
   \<and> group_type (analyze_persona_job_context ''Travel blogger''
        ''Plan a 4-day trip for a group of 6 college friends to a coastal city, focusing on budget nightlife and food'') = ''group''
   \<and> group_size (analyze_persona_job_context ''Travel blogger''
        ''Plan a 4-day trip for a group of 6 college friends to a coastal city, focusing on budget nightlife and food'') = Some 4
   \<and> age_group (analyze_persona_job_context ''Travel blogger''
        ''Plan a 4-day trip for a group of 6 college friends to a coastal city, focusing on budget nightlife and food'') = ''young_adult''
   \<and> trip_duration (analyze_persona_job_context ''Travel blogger''
        ''Plan a 4-day trip for a group of 6 college friends to a coastal city, focusing on budget nightlife and food'') = ''unknown''
   \<and> budget_level (analyze_persona_job_context ''Travel blogger''
        ''Plan a 4-day trip for a group of 6 college friends to a coastal city, focusing on budget nightlife and food'') = ''budget''
   \<and> ''nightlife'' \<in> set (activity_preferences (analyze_persona_job_context ''Travel blogger''
        ''Plan a 4-day trip for a group of 6 college friends to a coastal city, focusing on budget nightlife and food''))
   \<and> ''culinary'' \<in> set (activity_preferences (analyze_persona_job_context ''Travel blogger''
        ''Plan a 4-day trip for a group of 6 college friends to a coastal city, focusing on budget nightlife and food''))"
  by (simp add: sample_context)

theorem sample_context_counterexample:
  "group_size (analyze_persona_job_context ''Travel blogger''
        ''Plan a 4-day trip for a group of 6 college friends to a coastal city, focusing on budget nightlife and food'') \<noteq> Some 6
   \<and> trip_duration (analyze_persona_job_context ''Travel blogger''
        ''Plan a 4-day trip for a group of 6 college friends to a coastal city, focusing on budget nightlife and food'') \<noteq> ''4_days''"
  by (simp add: sample_context)

section \<open>Properties of the relevance scorer\<close>

lemma keyword_score_sum_aux:
  "foldl (\<lambda>acc word. case map_of travel_keywords word of
                        Some weight \<Rightarrow> acc + weight | None \<Rightarrow> acc) a words
     = a + sum_list (map spec_keyword_weight words)"
  by (induction words arbitrary: a) (simp_all add: spec_keyword_weight_def split: option.splits)

lemma keyword_score_sum: "keyword_score words = sum_list (map spec_keyword_weight words)"
  by (simp add: keyword_score_def keyword_score_sum_aux)

lemma pattern_bonus_sum_aux:
  "foldl (\<lambda>acc (pattern_name, pattern_info).
              if 0 < pattern_matches pattern_info full_text
              then acc + of_nat (pattern_matches pattern_info full_text)
                           * weight_multiplier pattern_info * 5
              else acc) a ps
     = a + sum_list (map (\<lambda>(pattern_name, pattern_info).
                      of_nat (length (filter (\<lambda>phrase. str_in phrase full_text)
                                        (pattern_keywords pattern_info)))
                        * weight_multiplier pattern_info * 5) ps)"
  by (induction ps arbitrary: a) (auto simp: pattern_matches_def split: prod.splits)

lemma pattern_bonus_sum: "pattern_bonus full_text = spec_pattern_bonus full_text"
  by (simp add: pattern_bonus_def spec_pattern_bonus_def pattern_bonus_sum_aux)

lemma preference_step_bonus:
  "preference_step full_text m preference = m + spec_preference_bonus full_text preference"
  by (auto simp: preference_step_def spec_preference_bonus_def)

lemma preference_fold_sum:
  "foldl (preference_step full_text) m prefs
     = m + sum_list (map (spec_preference_bonus full_text) prefs)"
  by (induction prefs arbitrary: m) (simp_all add: preference_step_bonus)

lemma context_multiplier_sum:
  "context_multiplier ctx full_text = spec_context_multiplier ctx full_text"
  by (simp add: context_multiplier_def spec_context_multiplier_def Let_def
        preference_fold_sum spec_bonus_def)

lemma no_words_in_blank: "findall_words (full_text_of [] []) = []"
  by code_simp

lemma relevance_unfolded:
  "findall_words (full_text_of heading body) \<noteq> [] \<Longrightarrow>
   calculate_dynamic_relevance body heading ctx doc page_num =
     min ((of_int (keyword_score (findall_words (full_text_of heading body)))
             / of_nat (length (findall_words (full_text_of heading body))) * 10
           + pattern_bonus (full_text_of heading body))
          * context_multiplier ctx (full_text_of heading body)) 100"
  using no_words_in_blank by (auto simp: calculate_dynamic_relevance_def Let_def)



subsection \<open>The range of the score\<close>

lemma travel_keywords_nonneg: "list_all (\<lambda>(word, weight). 0 \<le> weight) travel_keywords"
  by (simp add: travel_keywords_def)

lemma spec_keyword_weight_nonneg: "0 \<le> spec_keyword_weight word"
proof (cases "map_of travel_keywords word")
  case None
  then show ?thesis by (simp add: spec_keyword_weight_def)
next
  case (Some weight)
  then have "(word, weight) \<in> set travel_keywords" by (rule map_of_SomeD)
  with travel_keywords_nonneg have "0 \<le> weight" by (auto simp: list_all_iff)
  with Some show ?thesis by (simp add: spec_keyword_weight_def)
qed

lemma spec_base_score_nonneg: "0 \<le> spec_base_score words"
proof -
  have "0 \<le> sum_list (map spec_keyword_weight words)"
    by (rule sum_list_nonneg) (auto simp: spec_keyword_weight_nonneg)
  then show ?thesis by (simp add: spec_base_score_def)
qed

lemma content_patterns_nonneg:
  "list_all (\<lambda>(pattern_name, pattern_info). 0 \<le> weight_multiplier pattern_info) content_patterns"
  by (simp add: content_patterns_def)

lemma spec_pattern_bonus_nonneg: "0 \<le> spec_pattern_bonus full_text"
  unfolding spec_pattern_bonus_def
proof (rule sum_list_nonneg)
  fix x
  assume "x \<in> set (map (\<lambda>(pattern_name, pattern_info).
                      of_nat (length (filter (\<lambda>phrase. str_in phrase full_text)
                                        (pattern_keywords pattern_info)))
                        * weight_multiplier pattern_info * 5) content_patterns)"
  then obtain pattern_name pattern_info
    where mem: "(pattern_name, pattern_info) \<in> set content_patterns"
      and x: "x = of_nat (length (filter (\<lambda>phrase. str_in phrase full_text)
                                        (pattern_keywords pattern_info)))
                        * weight_multiplier pattern_info * 5"
    by auto
  from mem content_patterns_nonneg have "0 \<le> weight_multiplier pattern_info"
    by (auto simp: list_all_iff)
  with x show "0 \<le> x" by simp
qed

lemma spec_context_multiplier_ge_one: "1 \<le> spec_context_multiplier ctx full_text"
proof -
  have "0 \<le> sum_list (map (spec_preference_bonus full_text) (activity_preferences ctx))"
    by (rule sum_list_nonneg) (auto simp: spec_preference_bonus_def)
  then show ?thesis by (simp add: spec_context_multiplier_def spec_bonus_def)
qed

lemma relevance_no_words:
  "findall_words (full_text_of heading body) = [] \<Longrightarrow>
   calculate_dynamic_relevance body heading ctx doc page_num = 0"
  by (simp add: calculate_dynamic_relevance_def Let_def)

text \<open>
  Claim C4. For every title, body text, context, document name and page number, the
  score lies between 0 and 100, both included. The lemma \<open>relevance_clamped_example\<close>
  below shows a text of high-weight keywords at the cap.
\<close>

theorem relevance_in_range:
  "0 \<le> calculate_dynamic_relevance body heading ctx doc page_num
   \<and> calculate_dynamic_relevance body heading ctx doc page_num \<le> 100"
proof (cases "findall_words (full_text_of heading body) = []")
  case True
  then show ?thesis by (simp add: relevance_no_words)
next
  case False
  let ?ft = "full_text_of heading body"
  have m: "0 \<le> spec_context_multiplier ctx ?ft"
    using spec_context_multiplier_ge_one [of ctx ?ft] by simp
  have "0 \<le> spec_base_score (findall_words ?ft) + spec_pattern_bonus ?ft"
    using spec_base_score_nonneg [of "findall_words ?ft"] spec_pattern_bonus_nonneg [of ?ft]
    by simp
  from this m have "0 \<le> (spec_base_score (findall_words ?ft) + spec_pattern_bonus ?ft)
                      * spec_context_multiplier ctx ?ft"
    by (rule mult_nonneg_nonneg)
  then show ?thesis
    using relevance_unfolded [OF False, of ctx doc page_num]
    by (simp add: keyword_score_sum pattern_bonus_sum context_multiplier_sum spec_base_score_def)
qed

text \<open>A short text of high-weight keywords reaches the cap.\<close>

lemma relevance_clamped_example:
  "calculate_dynamic_relevance ''Group planning guide tips'' ''Group planning guide tips''
     initial_context ''city.pdf'' 1 = 100"
  by code_simp

subsection \<open>Texts without keywords\<close>

lemma sum_list_all_zero:
  "(\<And>x. x \<in> set xs \<Longrightarrow> f x = 0) \<Longrightarrow> sum_list (map f xs) = (0::'a::monoid_add)"
  by (induction xs) simp_all

lemma keyword_free_sum:
  assumes "keyword_free heading body"
  shows "sum_list (map spec_keyword_weight (findall_words (full_text_of heading body))) = 0"
proof (rule sum_list_all_zero)
  fix word
  assume "word \<in> set (findall_words (full_text_of heading body))"
  with assms show "spec_keyword_weight word = 0"
    by (auto simp: keyword_free_def list_all_iff spec_keyword_weight_def)
qed

lemma pattern_free_bonus:
  assumes "pattern_free heading body"
  shows "spec_pattern_bonus (full_text_of heading body) = 0"
  unfolding spec_pattern_bonus_def
proof (rule sum_list_all_zero)
  fix entry
  assume "entry \<in> set content_patterns"
  with assms show "(\<lambda>(pattern_name, pattern_info).
              of_nat (length (filter (\<lambda>phrase. str_in phrase (full_text_of heading body))
                                (pattern_keywords pattern_info)))
                * weight_multiplier pattern_info * 5) entry = (0::rat)"
    by (auto simp: pattern_free_def list_all_iff filter_empty_conv)
qed

text \<open>
  Claim C1, as amended. For every context, a title and body text whose lower-cased
  concatenation has no token with an entry in the keyword table, and in which no
  phrase of any content pattern occurs, has the score 0. Without the second condition
  the score is the pattern bonus times the context multiplier, which is not 0.
\<close>

theorem no_keywords_no_patterns_zero:
  assumes "keyword_free heading body" and "pattern_free heading body"
  shows "calculate_dynamic_relevance body heading ctx doc page_num = 0"
proof (cases "findall_words (full_text_of heading body) = []")
  case True
  then show ?thesis by (simp add: relevance_no_words)
next
  case False
  show ?thesis
    using relevance_unfolded [OF False, of ctx doc page_num]
      keyword_free_sum [OF assms(1)] pattern_free_bonus [OF assms(2)]
    by (simp add: keyword_score_sum pattern_bonus_sum)
qed

theorem no_keywords_no_patterns_zero_witness:
  "keyword_free ''Museum hours'' ''Museum hours''
   \<and> pattern_free ''Museum hours'' ''Museum hours''
   \<and> calculate_dynamic_relevance ''Museum hours'' ''Museum hours''
        (initial_context\<lparr>activity_preferences := [''cultural'']\<rparr>) ''city.pdf'' 4 = 0"
proof -
  have k: "keyword_free ''Museum hours'' ''Museum hours''" by code_simp
  have p: "pattern_free ''Museum hours'' ''Museum hours''" by code_simp
  from no_keywords_no_patterns_zero [OF k p] k p show ?thesis by blast
qed

theorem keyword_free_nonzero_counterexample:
  "keyword_free ''Overview'' ''Overview''
   \<and> calculate_dynamic_relevance ''Overview'' ''Overview'' initial_context ''city.pdf'' 1 = 15 / 2
   \<and> calculate_dynamic_relevance ''Overview'' ''Overview'' initial_context ''city.pdf'' 1 \<noteq> 0"
  by code_simp

end
